theory Spec2Isabelle
  imports Complex_Main "HOL-Library.Log_Nat"
begin

section \<open>Configuration (config.py)\<close>

text \<open>
  The module-level constants of \<^verbatim>\<open>config.py\<close>. The value of a Python float is a
  rational. The functions of \<^verbatim>\<open>risk_management.py\<close> compute in IEEE doubles, with
  every result rounded to the nearest double (section on Python numerics); the
  arithmetic of \<^verbatim>\<open>engine.py\<close> itself is read as exact arithmetic. NaN and
  infinities are not modelled.
\<close>

definition SYMBOLS :: "string list" where
  "SYMBOLS = [''XAUUSD'', ''BTCUSD'', ''US30'', ''USDJPY'', ''GBPJPY'', ''EURGBP'',
              ''ETHUSD'', ''USOIL'', ''AUDJPY'', ''XAGUSD'', ''EURUSD'', ''GBPUSD'']"

definition TIMEFRAMES :: "int list" where
  "TIMEFRAMES = [5, 15, 30]"

definition RISK_PER_TRADE :: rat where "RISK_PER_TRADE = 50"
definition RISK_REWARD_RATIO :: rat where "RISK_REWARD_RATIO = 5"
definition STOP_LOSS_ATR_FACTOR :: rat where "STOP_LOSS_ATR_FACTOR = 3 / 2"
definition TRAILING_STOP_ATR_FACTOR :: rat where "TRAILING_STOP_ATR_FACTOR = 1"
definition ORDER_EXPIRATION_BARS :: int where "ORDER_EXPIRATION_BARS = 5"
definition MIN_LOT_SIZE :: rat where "MIN_LOT_SIZE = 1 / 100"
definition MAX_LOT_SIZE :: rat where "MAX_LOT_SIZE = 1"
definition MAX_ALLOWED_LOT_SIZE :: rat where "MAX_ALLOWED_LOT_SIZE = 1"

definition MIN_MA_GAP :: rat where "MIN_MA_GAP = 6 / 10"

definition ENABLE_BUY :: bool where "ENABLE_BUY = True"
definition ENABLE_SELL :: bool where "ENABLE_SELL = True"
definition MAX_TRADES_PER_SYMBOL_TF :: int where "MAX_TRADES_PER_SYMBOL_TF = 1"
definition MAX_GLOBAL_TRADES :: int where "MAX_GLOBAL_TRADES = 15"
definition MIN_BARS_BETWEEN_TRADES :: int where "MIN_BARS_BETWEEN_TRADES = 5"
definition LIMIT_ORDER_DISTANCE :: rat where "LIMIT_ORDER_DISTANCE = 2"

definition ENABLE_SESSION :: bool where "ENABLE_SESSION = True"
definition SUNDAY_OPEN_HOUR :: int where "SUNDAY_OPEN_HOUR = 22"
definition SUNDAY_OPEN_MIN :: int where "SUNDAY_OPEN_MIN = 15"
definition DAILY_CLOSE_HOUR :: int where "DAILY_CLOSE_HOUR = 21"
definition DAILY_CLOSE_MIN :: int where "DAILY_CLOSE_MIN = 45"

definition DAILY_LOSS_PERCENT :: rat where "DAILY_LOSS_PERCENT = 5"
definition MAX_DRAWDOWN_PERCENT :: rat where "MAX_DRAWDOWN_PERCENT = 10"
definition MAX_SPREAD_MULTIPLIER :: rat where "MAX_SPREAD_MULTIPLIER = 3"

definition BASE_MAGIC :: int where "BASE_MAGIC = 10000"

text \<open>
  \<^verbatim>\<open>SYMBOL_SETTINGS\<close> is a dict of dicts; both levels are association lists read
  with \<^verbatim>\<open>.get(key, default)\<close>. The ATR periods are only handed to the indicator
  library and are left out.
\<close>

type_synonym settings = "(string \<times> rat) list"

definition SYMBOL_SETTINGS :: "(string \<times> settings) list" where
  "SYMBOL_SETTINGS =
    [(''XAUUSD'', [(''slFactor'', 2), (''minMaGap'', 6 / 10), (''rsiUpper'', 70), (''rsiLower'', 30),
                   (''trailingFactor'', 1), (''pointMultiplier'', 1)]),
     (''BTCUSD'', [(''slFactor'', 3 / 2), (''minMaGap'', 6 / 10), (''rsiUpper'', 75), (''rsiLower'', 25),
                   (''trailingFactor'', 1)]),
     (''US30'', [(''slFactor'', 3 / 2), (''minMaGap'', 8 / 10), (''rsiUpper'', 70), (''rsiLower'', 30),
                 (''trailingFactor'', 1)]),
     (''USDJPY'', [(''slFactor'', 3 / 2), (''minMaGap'', 6 / 10), (''rsiUpper'', 70), (''rsiLower'', 30),
                   (''trailingFactor'', 1)]),
     (''GBPJPY'', [(''slFactor'', 3 / 2), (''minMaGap'', 6 / 10), (''rsiUpper'', 70), (''rsiLower'', 30),
                   (''trailingFactor'', 1)]),
     (''EURGBP'', [(''slFactor'', 3 / 2), (''minMaGap'', 6 / 10), (''rsiUpper'', 70), (''rsiLower'', 30),
                   (''trailingFactor'', 1)]),
     (''ETHUSD'', [(''slFactor'', 3 / 2), (''minMaGap'', 6 / 10), (''rsiUpper'', 75), (''rsiLower'', 25),
                   (''trailingFactor'', 1), (''pointMultiplier'', 1)]),
     (''USOIL'', [(''slFactor'', 3 / 2), (''minMaGap'', 6 / 10), (''rsiUpper'', 70), (''rsiLower'', 30),
                  (''trailingFactor'', 2)]),
     (''AUDJPY'', [(''slFactor'', 3 / 2), (''minMaGap'', 6 / 10), (''rsiUpper'', 70), (''rsiLower'', 30),
                   (''trailingFactor'', 1)]),
     (''XAGUSD'', [(''slFactor'', 2), (''minMaGap'', 6 / 10), (''rsiUpper'', 70), (''rsiLower'', 30),
                   (''trailingFactor'', 1)]),
     (''EURUSD'', [(''slFactor'', 3 / 2), (''minMaGap'', 6 / 10), (''rsiUpper'', 70), (''rsiLower'', 30),
                   (''trailingFactor'', 1)]),
     (''GBPUSD'', [(''slFactor'', 3 / 2), (''minMaGap'', 6 / 10), (''rsiUpper'', 70), (''rsiLower'', 30),
                   (''trailingFactor'', 1)])]"

definition dict_get :: "('k \<times> 'v) list \<Rightarrow> 'k \<Rightarrow> 'v \<Rightarrow> 'v" where
  "dict_get d k dflt = (case map_of d k of None \<Rightarrow> dflt | Some v \<Rightarrow> v)"

section \<open>Python numerics\<close>

text \<open>
  \<^verbatim>\<open>round(x)\<close> rounds to the nearest integer, ties to the even one; \<^verbatim>\<open>int(x)\<close>
  truncates towards zero.
\<close>

definition py_round :: "rat \<Rightarrow> int" where
  "py_round x =
     (let f = \<lfloor>x\<rfloor>; d = x - of_int f in
      if d < 1 / 2 then f
      else if 1 / 2 < d then f + 1
      else if even f then f else f + 1)"

definition py_int :: "rat \<Rightarrow> int" where
  "py_int x = (if 0 \<le> x then \<lfloor>x\<rfloor> else \<lceil>x\<rceil>)"

subsection \<open>Doubles\<close>

text \<open>
  A Python float is an IEEE binary64 number: a rational with a mantissa of 53 bits.
  The result of \<^verbatim>\<open>+\<close>, \<^verbatim>\<open>-\<close>, \<^verbatim>\<open>*\<close> and \<^verbatim>\<open>/\<close> on doubles is the exact result
  rounded to the nearest double, ties to the even mantissa; converting a decimal
  literal or an integer rounds in the same way. \<open>float_exp x\<close> is the binary
  exponent of \<open>x \<noteq> 0\<close>, the \<open>e\<close> with \<open>2^e \<le> |x| < 2^(e+1)\<close>, and \<open>fl x\<close> is \<open>x\<close>
  rounded to 53 bits at that exponent. The range of the exponent is not bounded:
  overflow to infinity and gradual underflow (magnitudes above about 1.8e308 or below
  about 2.2e-308) are outside the model.

  \<^verbatim>\<open>round(x, 2)\<close> on a double rounds its exact value to two decimals, ties to
  even, and returns the double nearest to that decimal number.
\<close>

definition float_exp :: "rat \<Rightarrow> int" where
  "float_exp x =
     (let a = \<bar>x\<bar> in
      if 1 \<le> a then bitlen \<lfloor>a\<rfloor> - 1 else - bitlen (\<lceil>1 / a\<rceil> - 1))"

definition fl :: "rat \<Rightarrow> rat" where
  "fl x =
     (if x = 0 then 0
      else let e = float_exp x
           in of_int (py_round (x * 2 powi (52 - e))) * 2 powi (e - 52))"

definition py_round2 :: "rat \<Rightarrow> rat" where
  "py_round2 x = fl (of_int (py_round (x * 100)) / 100)"

section \<open>The MetaTrader terminal as seen during one timer tick\<close>

text \<open>
  What \<^verbatim>\<open>mt5.symbol_info(symbol)\<close> returns: \<open>None\<close> for an unknown symbol, else the
  fields the engine reads.
\<close>

record symbol_info =
  trade_contract_size :: rat
  trade_tick_value :: rat
  trade_tick_size :: rat
  point :: rat
  volume_step :: rat
  ask :: rat
  bid :: rat
  spread :: rat

text \<open>Entries of \<^verbatim>\<open>mt5.orders_get()\<close> and \<^verbatim>\<open>mt5.positions_get()\<close>.\<close>

record broker_order =
  ticket :: int
  symbol :: string
  magic :: int

definition ORDER_TYPE_BUY :: int where "ORDER_TYPE_BUY = 0"
definition ORDER_TYPE_SELL :: int where "ORDER_TYPE_SELL = 1"
definition ORDER_TYPE_BUY_LIMIT :: int where "ORDER_TYPE_BUY_LIMIT = 2"
definition ORDER_TYPE_SELL_LIMIT :: int where "ORDER_TYPE_SELL_LIMIT = 3"
definition TRADE_RETCODE_DONE :: int where "TRADE_RETCODE_DONE = 10009"

record position = broker_order +
  ptype :: int
  volume :: rat
  price_open :: rat
  sl :: rat
  tp :: rat
  profit :: rat

text \<open>
  The three requests the engine hands to \<^verbatim>\<open>mt5.order_send\<close>:
  \<^verbatim>\<open>TRADE_ACTION_REMOVE\<close> (order), \<^verbatim>\<open>TRADE_ACTION_SLTP\<close> (position, sl, tp) and
  \<^verbatim>\<open>TRADE_ACTION_PENDING\<close> (symbol, volume, type, price, sl, tp, magic, expiration).
\<close>

datatype request =
  Remove int
| Sltp int rat rat
| Pending string rat int rat rat rat int int

record trade_result =
  retcode :: int
  order :: int

text \<open>
  The indicator snapshot of \<^verbatim>\<open>Indicators.get_indicators\<close>: the last three values of
  each series (oldest first, so index \<open>-1\<close> is the third and \<open>-2\<close> the second
  component) and the current close. The indicator library asks for at least 460 bars;
  the model covers the snapshots that hold all three values.
\<close>

type_synonym last3 = "rat \<times> rat \<times> rat"

definition idx1 :: "last3 \<Rightarrow> rat" where
  "idx1 xs = (case xs of (a, b, c) \<Rightarrow> c)"

definition idx2 :: "last3 \<Rightarrow> rat" where
  "idx2 xs = (case xs of (a, b, c) \<Rightarrow> b)"

record indicators =
  ma_fast :: last3
  ma_slow :: last3
  atr_fast :: last3
  atr_slow :: last3
  rsi :: last3
  close :: rat

text \<open>
  Everything the engine reads from outside during one tick, taken as fixed for the
  tick: the connection check, the cached account, positions and orders, the symbol
  table, the time of the current bar (\<^verbatim>\<open>copy_rates_from_pos(symbol, tf, 0, 1)[0][0]\<close>,
  \<open>None\<close> when no bar comes back), the indicator snapshots, the answer of
  \<^verbatim>\<open>order_send\<close> to each request (\<open>None\<close> when the call returns no result object),
  \<^verbatim>\<open>time.time()\<close>, and the clock in the Africa/Lagos zone (Python's weekday: Monday
  is 0, Sunday is 6; the date as a day number).
\<close>

record terminal =
  connected :: bool
  account_equity :: "rat option"
  positions_get :: "position list"
  orders_get :: "broker_order list"
  symbol_info :: "string \<Rightarrow> symbol_info option"
  copy_rates_time :: "string \<Rightarrow> int \<Rightarrow> int option"
  get_indicators :: "string \<Rightarrow> int \<Rightarrow> indicators option"
  order_send :: "request \<Rightarrow> trade_result option"
  time_now :: int
  lagos_date :: int
  lagos_weekday :: int
  lagos_hour :: int
  lagos_minute :: int

section \<open>Risk management (risk\_management.py)\<close>

text \<open>
  The three functions compute in doubles: every arithmetic result is wrapped in
  \<open>fl\<close>. A number that comes in from the configuration, the terminal or the caller
  is read through \<open>fl\<close> as well: in a run of the program each of them is a double
  already, and \<open>fl\<close> leaves a double as it is (lemma \<open>fl_idem\<close>).
\<close>

definition calculate_dollar_risk_per_point :: "terminal \<Rightarrow> string \<Rightarrow> rat" where
  "calculate_dollar_risk_per_point mt5 symb =
     (case symbol_info mt5 symb of
        None \<Rightarrow> 0
      | Some info \<Rightarrow>
          let settings = dict_get SYMBOL_SETTINGS symb [];
              point_multiplier = fl (dict_get settings ''pointMultiplier'' 1);
              tick_value = fl (trade_tick_value info);
              tick_size = fl (trade_tick_size info);
              pt = fl (point info)
          in if symb \<in> set [''BTCUSD'', ''ETHUSD''] then fl (1 * point_multiplier)
             else if tick_size = 0 \<or> pt = 0 then 0
             else fl (fl (fl (tick_value * pt) / tick_size) * point_multiplier))"

definition calculate_lot_size :: "terminal \<Rightarrow> string \<Rightarrow> rat \<Rightarrow> rat \<Rightarrow> rat \<Rightarrow> rat" where
  "calculate_lot_size mt5 symb entry sl0 risk_amount =
     (let entry = fl entry; sl0 = fl sl0; risk_amount = fl risk_amount
      in if entry = 0 \<or> sl0 = 0 \<or> entry = sl0 then 0
         else
           let risk_points = \<bar>fl (entry - sl0)\<bar>;
               dollar_per_point = calculate_dollar_risk_per_point mt5 symb
           in if dollar_per_point = 0 then 0
              else
                let contract_size = (case symbol_info mt5 symb of
                                       Some info \<Rightarrow> fl (trade_contract_size info) | None \<Rightarrow> 1);
                    value_per_point_per_lot = fl (dollar_per_point * contract_size);
                    risk_per_lot = fl (risk_points * value_per_point_per_lot)
                in if risk_per_lot \<le> 0 then 0
                   else
                     let lots = fl (risk_amount / risk_per_lot);
                         min_lot = fl MIN_LOT_SIZE;
                         max_lot = min (fl MAX_LOT_SIZE) (fl MAX_ALLOWED_LOT_SIZE);
                         lots = (if lots < min_lot then min_lot
                                 else if max_lot < lots then max_lot else lots);
                         step = (case symbol_info mt5 symb of
                                   Some info \<Rightarrow> fl (volume_step info) | None \<Rightarrow> fl (1 / 100));
                         lots = (if 0 < step
                                 then fl (step * fl (of_int (py_round (fl (lots / step)))))
                                 else lots)
                     in py_round2 lots)"

definition adjust_risk_for_fixed_dollar ::
  "terminal \<Rightarrow> string \<Rightarrow> rat \<Rightarrow> rat \<Rightarrow> rat \<Rightarrow> rat \<Rightarrow> bool \<Rightarrow> rat \<Rightarrow> rat \<times> rat" where
  "adjust_risk_for_fixed_dollar mt5 symb sl0 tp0 entry lot is_buy atr_value =
     (let dollar_per_point = calculate_dollar_risk_per_point mt5 symb
      in if dollar_per_point = 0 then (sl0, tp0)
         else
           let contract_size = (case symbol_info mt5 symb of
                                  Some info \<Rightarrow> fl (trade_contract_size info) | None \<Rightarrow> 1);
               value_per_point_per_lot = fl (dollar_per_point * contract_size);
               risk_per_point = fl (value_per_point_per_lot * fl lot)
           in if risk_per_point \<le> 0 then (sl0, tp0)
              else
                let required_risk_points = fl (fl RISK_PER_TRADE / risk_per_point);
                    pt = (case symbol_info mt5 symb of
                            Some info \<Rightarrow> fl (point info) | None \<Rightarrow> fl (1 / 10000));
                    entry = fl entry
                in if is_buy then
                     (let sl' = fl (entry - fl (required_risk_points * pt));
                          sl_distance = fl (entry - sl')
                      in (sl', fl (entry + fl (sl_distance * fl RISK_REWARD_RATIO))))
                   else
                     (let sl' = fl (entry + fl (required_risk_points * pt));
                          sl_distance = fl (sl' - entry)
                      in (sl', fl (entry - fl (sl_distance * fl RISK_REWARD_RATIO)))))"

section \<open>Engine state (engine.py)\<close>

text \<open>
  \<^verbatim>\<open>PendingOrder\<close>: the ledger entry of an order this engine placed.
\<close>

record PendingOrder = broker_order +
  timeframe :: int
  placement_time :: int
  placement_bar :: int

text \<open>
  The mutable attributes of \<^verbatim>\<open>TradingEngine\<close>. The per-symbol context dictionaries
  are keyed by the configured symbols and timeframes and never gain or lose a key, so
  they are total functions here; the lookup of an unconfigured key (a
  \<^verbatim>\<open>KeyError\<close>) is written out where the engine indexes them. \<open>sent\<close> records the
  requests handed to \<^verbatim>\<open>mt5.order_send\<close> so far, oldest first.
\<close>

record engine =
  equity_high :: rat
  equity_at_start :: rat
  daily_profit_loss :: rat
  active_orders :: "PendingOrder list"
  last_trading_day :: "int option"
  last_trade_bar :: "string \<Rightarrow> int \<Rightarrow> int"
  atr_current :: "string \<Rightarrow> int \<Rightarrow> rat"
  last_trade_time :: "string \<Rightarrow> int \<Rightarrow> int"
  sent :: "request list"

text \<open>\<^verbatim>\<open>__init__\<close> after a successful connection; the argument is
  \<^verbatim>\<open>mt5.account_info()\<close>'s equity, \<open>None\<close> when no account info comes back.\<close>

text \<open>The assignment \<^verbatim>\<open>d[k1][k2] = v\<close> on a nested dictionary.\<close>

definition dict_set2 :: "('a \<Rightarrow> 'b \<Rightarrow> 'c) \<Rightarrow> 'a \<Rightarrow> 'b \<Rightarrow> 'c \<Rightarrow> 'a \<Rightarrow> 'b \<Rightarrow> 'c" where
  "dict_set2 d k1 k2 v = (\<lambda>a b. if a = k1 \<and> b = k2 then v else d a b)"

definition init_engine :: "rat option \<Rightarrow> engine" where
  "init_engine account_info =
     (let eh = (case account_info of Some e \<Rightarrow> e | None \<Rightarrow> 10000)
      in \<lparr>equity_high = eh, equity_at_start = eh, daily_profit_loss = 0,
          active_orders = [], last_trading_day = None,
          last_trade_bar = (\<lambda>symb tf. - 10), atr_current = (\<lambda>symb tf. 0),
          last_trade_time = (\<lambda>symb tf. 0), sent = []\<rparr>)"

definition calculate_drawdown :: "engine \<Rightarrow> rat \<Rightarrow> rat" where
  "calculate_drawdown s current_equity =
     (if equity_high s = 0 then 0
      else (equity_high s - current_equity) / equity_high s * 100)"

definition is_new_trading_day :: "terminal \<Rightarrow> engine \<Rightarrow> bool \<times> engine" where
  "is_new_trading_day mt5 s =
     (if last_trading_day s \<noteq> Some (lagos_date mt5) then
        (if lagos_weekday mt5 \<in> set [6, 0, 1, 2, 3, 4]
         then (True, s\<lparr>last_trading_day := Some (lagos_date mt5)\<rparr>)
         else (False, s))
      else (False, s))"

definition is_trading_session :: "terminal \<Rightarrow> bool" where
  "is_trading_session mt5 =
     (if \<not> ENABLE_SESSION then True
      else if lagos_weekday mt5 = 6 then
        (if lagos_hour mt5 < SUNDAY_OPEN_HOUR \<or>
            (lagos_hour mt5 = SUNDAY_OPEN_HOUR \<and> lagos_minute mt5 < SUNDAY_OPEN_MIN)
         then False else True)
      else if lagos_weekday mt5 = 4 then
        (if DAILY_CLOSE_HOUR < lagos_hour mt5 \<or>
            (lagos_hour mt5 = DAILY_CLOSE_HOUR \<and> DAILY_CLOSE_MIN \<le> lagos_minute mt5)
         then False else True)
      else if lagos_weekday mt5 = 5 then False
      else True)"

definition get_timeframe_seconds :: "int \<Rightarrow> int" where
  "get_timeframe_seconds tf =
     dict_get [(1, 60), (5, 300), (15, 900), (30, 1800), (60, 3600), (240, 14400), (1440, 86400)]
       tf 300"

subsection \<open>The order ledger\<close>

text \<open>
  One pass of the loop of \<^verbatim>\<open>cleanup_orders\<close> over a copy of the ledger. The value
  \<^verbatim>\<open>order_send\<close> returns for the removal request is not looked at.
\<close>

definition cleanup_order :: "terminal \<Rightarrow> PendingOrder \<Rightarrow> engine \<Rightarrow> engine" where
  "cleanup_order mt5 ord s =
     (if \<not> list_ex (\<lambda>cur. ticket cur = ticket ord) (orders_get mt5)
      then s\<lparr>active_orders := remove1 ord (active_orders s)\<rparr>
      else case copy_rates_time mt5 (symbol ord) (timeframe ord) of
             None \<Rightarrow> s
           | Some bar \<Rightarrow>
               if ORDER_EXPIRATION_BARS \<le> bar - placement_bar ord
               then s\<lparr>active_orders := remove1 ord (active_orders s),
                      sent := sent s @ [Remove (ticket ord)]\<rparr>
               else s)"

definition cleanup_orders :: "terminal \<Rightarrow> engine \<Rightarrow> engine" where
  "cleanup_orders mt5 s = fold (cleanup_order mt5) (active_orders s) s"

definition get_bars_count :: "terminal \<Rightarrow> string \<Rightarrow> int \<Rightarrow> int" where
  "get_bars_count mt5 symb tf = (case copy_rates_time mt5 symb tf of Some bar \<Rightarrow> bar | None \<Rightarrow> 0)"

definition count_orders :: "terminal \<Rightarrow> string \<Rightarrow> int \<Rightarrow> int" where
  "count_orders mt5 symb mg =
     int (length (filter (\<lambda>p. symbol p = symb \<and> magic p = mg) (positions_get mt5))) +
     int (length (filter (\<lambda>cur. symbol cur = symb \<and> magic cur = mg) (orders_get mt5)))"

subsection \<open>Magic numbers\<close>

text \<open>\<^verbatim>\<open>list.index\<close>: the first position of the element, \<open>None\<close> for the
  \<^verbatim>\<open>ValueError\<close> of an absent one.\<close>

fun index_of :: "'a list \<Rightarrow> 'a \<Rightarrow> nat option" where
  "index_of [] x = None"
| "index_of (y # ys) x = (if y = x then Some 0 else map_option Suc (index_of ys x))"

definition magic_number :: "string \<Rightarrow> int \<Rightarrow> int option" where
  "magic_number symb tf =
     (case index_of SYMBOLS symb of
        None \<Rightarrow> None
      | Some symbol_idx \<Rightarrow>
          (case index_of TIMEFRAMES tf of
             None \<Rightarrow> None
           | Some timeframe_idx \<Rightarrow>
               Some (BASE_MAGIC + int symbol_idx * 1000 + int timeframe_idx * 10)))"

subsection \<open>Trailing of open positions\<close>

definition modify_position :: "terminal \<Rightarrow> int \<Rightarrow> rat \<Rightarrow> rat \<Rightarrow> engine \<Rightarrow> engine" where
  "modify_position mt5 tk new_sl new_tp s = s\<lparr>sent := sent s @ [Sltp tk new_sl new_tp]\<rparr>"

text \<open>
  The guarded body of the loop of \<^verbatim>\<open>manage_existing_positions\<close> for one position
  of the right symbol and magic: \<open>Some (new_sl, new_tp)\<close> exactly when
  \<^verbatim>\<open>modify_position\<close> is called with these values. The stop of a position without
  a stop is 0, so \<^verbatim>\<open>current_sl or 0\<close> and \<^verbatim>\<open>current_sl or float('inf')\<close> are
  decided by \<open>sl p = 0\<close>.
\<close>

definition trail_position ::
  "terminal \<Rightarrow> engine \<Rightarrow> string \<Rightarrow> int \<Rightarrow> rat \<Rightarrow> position \<Rightarrow> (rat \<times> rat) option" where
  "trail_position mt5 s symb tf trailing_factor p =
     (case symbol_info mt5 symb of
        None \<Rightarrow> None
      | Some info \<Rightarrow>
          let pt = point info;
              current_price = (if ptype p = ORDER_TYPE_BUY then ask info else bid info);
              entry_price = price_open p;
              current_sl = sl p;
              dollar_per_point = calculate_dollar_risk_per_point mt5 symb
          in if dollar_per_point \<le> 0 then None
             else
               let point_value = volume p * dollar_per_point
               in if point_value \<le> 0 then None
                  else
                    let profit_units = py_int (profit p / RISK_PER_TRADE)
                    in if profit_units < 1 then None
                       else if ptype p = ORDER_TYPE_BUY then
                         (let new_sl = entry_price +
                                of_int profit_units * (RISK_PER_TRADE / point_value) * pt;
                              new_sl =
                                (if symb \<in> set [''XAUUSD'', ''USOIL'', ''XAGUSD''] then
                                   (let atr_value = atr_current s symb tf
                                    in if 0 < atr_value
                                       then max new_sl (current_price - trailing_factor * atr_value)
                                       else new_sl)
                                 else new_sl);
                              sl_distance = entry_price - new_sl;
                              new_tp = entry_price + sl_distance * RISK_REWARD_RATIO
                          in if (if current_sl \<noteq> 0 then current_sl else 0) < new_sl \<and>
                                new_sl < current_price
                             then Some (new_sl, new_tp) else None)
                       else
                         (let new_sl = entry_price -
                                of_int profit_units * (RISK_PER_TRADE / point_value) * pt;
                              new_sl =
                                (if symb \<in> set [''XAUUSD'', ''USOIL'', ''XAGUSD''] then
                                   (let atr_value = atr_current s symb tf
                                    in if 0 < atr_value
                                       then min new_sl (current_price + trailing_factor * atr_value)
                                       else new_sl)
                                 else new_sl);
                              sl_distance = new_sl - entry_price;
                              new_tp = entry_price - sl_distance * RISK_REWARD_RATIO
                          in if (current_sl \<noteq> 0 \<longrightarrow> new_sl < current_sl) \<and>
                                current_price < new_sl
                             then Some (new_sl, new_tp) else None))"

text \<open>
  One position of the loop. \<open>None\<close> is the \<^verbatim>\<open>ValueError\<close> of
  \<^verbatim>\<open>SYMBOLS.index\<close> or \<^verbatim>\<open>TIMEFRAMES.index\<close>, raised outside the \<^verbatim>\<open>try\<close>.
\<close>

definition manage_position ::
  "terminal \<Rightarrow> string \<Rightarrow> int \<Rightarrow> rat \<Rightarrow> position \<Rightarrow> engine \<Rightarrow> engine option" where
  "manage_position mt5 symb tf trailing_factor p s =
     (if symbol p \<noteq> symb then Some s
      else case magic_number symb tf of
             None \<Rightarrow> None
           | Some mg \<Rightarrow>
               if magic p \<noteq> mg then Some s
               else (case trail_position mt5 s symb tf trailing_factor p of
                       None \<Rightarrow> Some s
                     | Some (new_sl, new_tp) \<Rightarrow>
                         Some (modify_position mt5 (ticket p) new_sl new_tp s)))"

fun manage_loop ::
  "terminal \<Rightarrow> string \<Rightarrow> int \<Rightarrow> rat \<Rightarrow> position list \<Rightarrow> engine \<Rightarrow> engine option" where
  "manage_loop mt5 symb tf trailing_factor [] s = Some s"
| "manage_loop mt5 symb tf trailing_factor (p # ps) s =
     (case manage_position mt5 symb tf trailing_factor p s of
        None \<Rightarrow> None
      | Some s' \<Rightarrow> manage_loop mt5 symb tf trailing_factor ps s')"

definition manage_existing_positions ::
  "terminal \<Rightarrow> string \<Rightarrow> int \<Rightarrow> rat \<Rightarrow> engine \<Rightarrow> engine option" where
  "manage_existing_positions mt5 symb tf trailing_factor s =
     manage_loop mt5 symb tf trailing_factor (positions_get mt5) s"

subsection \<open>Spread (indicators.py)\<close>

definition get_spread :: "terminal \<Rightarrow> string \<Rightarrow> rat" where
  "get_spread mt5 symb =
     (case symbol_info mt5 symb of Some info \<Rightarrow> spread info * point info | None \<Rightarrow> 0)"

definition get_avg_spread :: "terminal \<Rightarrow> string \<Rightarrow> rat" where
  "get_avg_spread mt5 symb =
     (let spreads = filter (\<lambda>x. 0 < x) (map (\<lambda>i. get_spread mt5 symb) [0..<50])
      in if spreads \<noteq> [] then sum_list spreads / of_nat (length spreads) else 0)"

subsection \<open>Entry conditions and order placement\<close>

text \<open>
  The two entry conditions of \<^verbatim>\<open>process_symbol_timeframe\<close>, as functions of the
  snapshot and the per-symbol values \<^verbatim>\<open>min_ma_gap\<close>, \<^verbatim>\<open>rsi_upper\<close> and
  \<^verbatim>\<open>rsi_lower\<close>.
\<close>

definition buy_condition :: "indicators \<Rightarrow> rat \<Rightarrow> rat \<Rightarrow> bool" where
  "buy_condition ind min_ma_gap rsi_upper =
     (let gap = idx1 (ma_fast ind) * min_ma_gap / 100;
          close_price = close ind
      in ENABLE_BUY \<and>
         idx1 (atr_fast ind) < idx1 (atr_slow ind) \<and>
         close_price < idx1 (ma_fast ind) - gap \<and>
         idx1 (ma_slow ind) < close_price \<and>
         idx1 (rsi ind) < idx2 (rsi ind) \<and>
         idx1 (rsi ind) < rsi_upper)"

definition sell_condition :: "indicators \<Rightarrow> rat \<Rightarrow> rat \<Rightarrow> bool" where
  "sell_condition ind min_ma_gap rsi_lower =
     (let gap = idx1 (ma_fast ind) * min_ma_gap / 100;
          close_price = close ind
      in ENABLE_SELL \<and>
         idx1 (atr_fast ind) < idx1 (atr_slow ind) \<and>
         idx1 (ma_fast ind) + gap < close_price \<and>
         close_price < idx1 (ma_slow ind) \<and>
         idx2 (rsi ind) < idx1 (rsi ind) \<and>
         rsi_lower < idx1 (rsi ind))"

text \<open>
  \<^verbatim>\<open>place_order\<close>: the ticket of the accepted order, \<open>None\<close> when the request is
  rejected or \<^verbatim>\<open>order_send\<close> gives no result object (the attribute error is caught).
\<close>

definition place_order ::
  "terminal \<Rightarrow> string \<Rightarrow> int \<Rightarrow> rat \<Rightarrow> rat \<Rightarrow> rat \<Rightarrow> rat \<Rightarrow> int \<Rightarrow> int \<Rightarrow> engine
     \<Rightarrow> int option \<times> engine" where
  "place_order mt5 symb order_type vol price sl0 tp0 mg tf s =
     (let timeframe_seconds = get_timeframe_seconds tf;
          expiration_seconds = ORDER_EXPIRATION_BARS * timeframe_seconds;
          req = Pending symb vol order_type price sl0 tp0 mg (time_now mt5 + expiration_seconds);
          s' = s\<lparr>sent := sent s @ [req]\<rparr>
      in case order_send mt5 req of
           None \<Rightarrow> (None, s')
         | Some result \<Rightarrow>
             if retcode result \<noteq> TRADE_RETCODE_DONE then (None, s')
             else (Some (order result), s'))"

text \<open>
  The bookkeeping after \<^verbatim>\<open>place_order\<close>: a truthy ticket (not \<open>None\<close>, not 0)
  restarts the spacing counter and enters the order into the ledger.
\<close>

definition track_order ::
  "terminal \<Rightarrow> string \<Rightarrow> int \<Rightarrow> int \<Rightarrow> int \<Rightarrow> int option \<times> engine \<Rightarrow> engine" where
  "track_order mt5 symb tf mg current_bars res =
     (case res of
        (None, s) \<Rightarrow> s
      | (Some order_ticket, s) \<Rightarrow>
          if order_ticket = 0 then s
          else s\<lparr>last_trade_bar := dict_set2 (last_trade_bar s) symb tf current_bars,
                 last_trade_time := dict_set2 (last_trade_time s) symb tf (time_now mt5),
                 active_orders := active_orders s @
                   [\<lparr>ticket = order_ticket, symbol = symb, magic = mg, timeframe = tf,
                     placement_time = time_now mt5, placement_bar = current_bars\<rparr>]\<rparr>)"

definition buy_branch ::
  "terminal \<Rightarrow> string \<Rightarrow> int \<Rightarrow> symbol_info \<Rightarrow> rat \<Rightarrow> rat \<Rightarrow> int \<Rightarrow> int \<Rightarrow> engine \<Rightarrow> engine" where
  "buy_branch mt5 symb tf info atr_value sl_factor mg current_bars s =
     (let pip_size = point info * 10;
          buy_limit_price = ask info - LIMIT_ORDER_DISTANCE * pip_size;
          buy_sl = buy_limit_price - sl_factor * atr_value;
          buy_tp = buy_limit_price + sl_factor * atr_value * RISK_REWARD_RATIO;
          initial_lots = calculate_lot_size mt5 symb buy_limit_price buy_sl RISK_PER_TRADE;
          (buy_sl, buy_tp, lots) =
            (if MAX_ALLOWED_LOT_SIZE \<le> initial_lots
             then (case adjust_risk_for_fixed_dollar mt5 symb buy_sl buy_tp buy_limit_price
                          MAX_ALLOWED_LOT_SIZE True atr_value of
                     (a, b) \<Rightarrow> (a, b, MAX_ALLOWED_LOT_SIZE))
             else (buy_sl, buy_tp, initial_lots))
      in if lots < MIN_LOT_SIZE then s
         else if 0 < lots then
           track_order mt5 symb tf mg current_bars
             (place_order mt5 symb ORDER_TYPE_BUY_LIMIT lots buy_limit_price buy_sl buy_tp mg tf s)
         else s)"

definition sell_branch ::
  "terminal \<Rightarrow> string \<Rightarrow> int \<Rightarrow> symbol_info \<Rightarrow> rat \<Rightarrow> rat \<Rightarrow> int \<Rightarrow> int \<Rightarrow> engine \<Rightarrow> engine" where
  "sell_branch mt5 symb tf info atr_value sl_factor mg current_bars s =
     (let pip_size = point info * 10;
          sell_limit_price = bid info + LIMIT_ORDER_DISTANCE * pip_size;
          sell_sl = sell_limit_price + sl_factor * atr_value;
          sell_tp = sell_limit_price - sl_factor * atr_value * RISK_REWARD_RATIO;
          initial_lots = calculate_lot_size mt5 symb sell_limit_price sell_sl RISK_PER_TRADE;
          (sell_sl, sell_tp, lots) =
            (if MAX_ALLOWED_LOT_SIZE \<le> initial_lots
             then (case adjust_risk_for_fixed_dollar mt5 symb sell_sl sell_tp sell_limit_price
                          MAX_ALLOWED_LOT_SIZE False atr_value of
                     (a, b) \<Rightarrow> (a, b, MAX_ALLOWED_LOT_SIZE))
             else (sell_sl, sell_tp, initial_lots))
      in if lots < MIN_LOT_SIZE then s
         else if 0 < lots then
           track_order mt5 symb tf mg current_bars
             (place_order mt5 symb ORDER_TYPE_SELL_LIMIT lots sell_limit_price sell_sl sell_tp mg tf s)
         else s)"

text \<open>
  The new-trade logic at the end of \<^verbatim>\<open>process_symbol_timeframe\<close>, with the two
  conditions as the local booleans they are in the source: \<^verbatim>\<open>if buy_condition: ...
  elif sell_condition: ...\<close>.
\<close>

definition new_trade_logic ::
  "terminal \<Rightarrow> string \<Rightarrow> int \<Rightarrow> rat \<Rightarrow> rat \<Rightarrow> int \<Rightarrow> int \<Rightarrow> bool \<Rightarrow> bool \<Rightarrow> int \<Rightarrow> engine
     \<Rightarrow> engine" where
  "new_trade_logic mt5 symb tf atr_value sl_factor mg current_bars buy_cond sell_cond
       existing_orders s =
     (if (buy_cond \<or> sell_cond) \<and> existing_orders < MAX_TRADES_PER_SYMBOL_TF then
        (case symbol_info mt5 symb of
           None \<Rightarrow> s
         | Some info \<Rightarrow>
             if buy_cond then buy_branch mt5 symb tf info atr_value sl_factor mg current_bars s
             else if sell_cond then sell_branch mt5 symb tf info atr_value sl_factor mg current_bars s
             else s)
      else s)"

subsection \<open>One (symbol, timeframe) evaluation\<close>

text \<open>
  \<^verbatim>\<open>process_symbol_timeframe\<close>. \<open>None\<close> is an exception that leaves the function:
  the \<^verbatim>\<open>KeyError\<close> of indexing the symbol contexts with an unconfigured symbol or
  timeframe, or the \<^verbatim>\<open>ValueError\<close> of the index lookups.
\<close>

definition process_symbol_timeframe :: "terminal \<Rightarrow> string \<Rightarrow> int \<Rightarrow> engine \<Rightarrow> engine option" where
  "process_symbol_timeframe mt5 symb tf s =
     (if MAX_GLOBAL_TRADES \<le> int (length (positions_get mt5)) + int (length (orders_get mt5))
      then Some s
      else
        let current_bars = get_bars_count mt5 symb tf
        in if symb \<notin> set SYMBOLS \<or> tf \<notin> set TIMEFRAMES then None
           else if current_bars - last_trade_bar s symb tf < MIN_BARS_BETWEEN_TRADES then Some s
           else
             let settings = dict_get SYMBOL_SETTINGS symb [];
                 min_ma_gap = dict_get settings ''minMaGap'' MIN_MA_GAP;
                 sl_factor = dict_get settings ''slFactor'' STOP_LOSS_ATR_FACTOR;
                 trailing_factor = dict_get settings ''trailingFactor'' TRAILING_STOP_ATR_FACTOR;
                 rsi_upper = dict_get settings ''rsiUpper'' 70;
                 rsi_lower = dict_get settings ''rsiLower'' 30
             in case get_indicators mt5 symb tf of
                  None \<Rightarrow> Some s
                | Some ind \<Rightarrow>
                    let s = s\<lparr>atr_current :=
                              dict_set2 (atr_current s) symb tf (idx1 (atr_fast ind))\<rparr>;
                        spread_now = get_spread mt5 symb;
                        avg_spread = get_avg_spread mt5 symb
                    in if avg_spread * MAX_SPREAD_MULTIPLIER < spread_now then Some s
                       else
                         let buy_cond = buy_condition ind min_ma_gap rsi_upper;
                             sell_cond = sell_condition ind min_ma_gap rsi_lower
                         in (case manage_existing_positions mt5 symb tf trailing_factor s of
                               None \<Rightarrow> None
                             | Some s \<Rightarrow>
                                 (case magic_number symb tf of
                                    None \<Rightarrow> None
                                  | Some mg \<Rightarrow>
                                      Some (new_trade_logic mt5 symb tf (idx1 (atr_fast ind)) sl_factor
                                              mg current_bars buy_cond sell_cond
                                              (count_orders mt5 symb mg) s))))"

subsection \<open>The timer tick\<close>

text \<open>The two nested loops of \<^verbatim>\<open>on_timer\<close> over a list of (symbol, timeframe) pairs;
  an exception ends the tick.\<close>

fun process_all :: "terminal \<Rightarrow> (string \<times> int) list \<Rightarrow> engine \<Rightarrow> engine option" where
  "process_all mt5 [] s = Some s"
| "process_all mt5 ((symb, tf) # rest) s =
     (case process_symbol_timeframe mt5 symb tf s of
        None \<Rightarrow> None
      | Some s' \<Rightarrow> process_all mt5 rest s')"

text \<open>The start of a tick once the account is known: the equity high watermark and
  the reset of the daily figures on a new trading day.\<close>

definition daily_rollover :: "terminal \<Rightarrow> rat \<Rightarrow> engine \<Rightarrow> engine" where
  "daily_rollover mt5 current_equity s =
     (let s = (if equity_high s < current_equity then s\<lparr>equity_high := current_equity\<rparr> else s)
      in case is_new_trading_day mt5 s of
           (True, s) \<Rightarrow> s\<lparr>equity_at_start := current_equity, daily_profit_loss := 0\<rparr>
         | (False, s) \<Rightarrow> s)"

definition daily_loss_limit :: "engine \<Rightarrow> rat" where
  "daily_loss_limit s = equity_at_start s * (DAILY_LOSS_PERCENT / 100)"

definition daily_loss_reached :: "engine \<Rightarrow> bool" where
  "daily_loss_reached s = (daily_profit_loss s \<le> - daily_loss_limit s)"

definition on_timer :: "terminal \<Rightarrow> engine \<Rightarrow> engine option" where
  "on_timer mt5 s =
     (if \<not> connected mt5 then Some s
      else case account_equity mt5 of
             None \<Rightarrow> Some s
           | Some current_equity \<Rightarrow>
               let s = daily_rollover mt5 current_equity s
               in if daily_loss_reached s then Some s
                  else if MAX_DRAWDOWN_PERCENT \<le> calculate_drawdown s current_equity then Some s
                  else
                    let s = cleanup_orders mt5 s
                    in if ENABLE_SESSION \<and> \<not> is_trading_session mt5 then Some s
                       else process_all mt5 (List.product SYMBOLS TIMEFRAMES) s)"

text \<open>The engine states a run can reach: the initial one, and whatever a tick that
  returns makes of a reachable one, with any terminal.\<close>

inductive reachable :: "engine \<Rightarrow> bool" where
  start: "reachable (init_engine account_info)"
| tick: "reachable s \<Longrightarrow> on_timer mt5 s = Some s' \<Longrightarrow> reachable s'"

text \<open>The branch of \<^verbatim>\<open>on_timer\<close> that returns at the daily loss limit is taken.\<close>

definition daily_loss_halt :: "terminal \<Rightarrow> engine \<Rightarrow> bool" where
  "daily_loss_halt mt5 s =
     (connected mt5 \<and>
      (case account_equity mt5 of
         None \<Rightarrow> False
       | Some current_equity \<Rightarrow> daily_loss_reached (daily_rollover mt5 current_equity s)))"

section \<open>Concrete terminals and states\<close>

text \<open>A connected terminal on a Monday noon with an account of 10000, no symbols,
  no bars, no positions and no orders; the scenarios below vary it.\<close>

definition mt_idle :: terminal where
  "mt_idle =
     \<lparr>connected = True, account_equity = Some 10000, positions_get = [], orders_get = [],
      symbol_info = (\<lambda>symb. None), copy_rates_time = (\<lambda>symb tf. None),
      get_indicators = (\<lambda>symb tf. None), order_send = (\<lambda>req. None),
      time_now = 1000, lagos_date = 1, lagos_weekday = 0, lagos_hour = 12, lagos_minute = 0\<rparr>"

definition clock :: "int \<Rightarrow> int \<Rightarrow> int \<Rightarrow> terminal" where
  "clock wd h m = mt_idle\<lparr>lagos_weekday := wd, lagos_hour := h, lagos_minute := m\<rparr>"

text \<open>A symbol with contract size 1 and volume step 0.01, quoted 1999 / 2000; for
  BTCUSD the dollar value of a point is the constant 1.\<close>

definition btc_info :: symbol_info where
  "btc_info =
     \<lparr>trade_contract_size = 1, trade_tick_value = 1, trade_tick_size = 1, point = 1 / 100,
      volume_step = 1 / 100, ask = 2000, bid = 1999, spread = 100\<rparr>"

definition mt_btc :: terminal where
  "mt_btc = mt_idle\<lparr>symbol_info := (\<lambda>symb. if symb = ''BTCUSD'' then Some btc_info else None)\<rparr>"

text \<open>A symbol priced through its tick economics, with contract size 100 and point
  0.01; the same symbol with a negative tick value; and a symbol of constant dollar
  value per point with a point size of 0.\<close>

definition xau_info :: symbol_info where
  "xau_info =
     \<lparr>trade_contract_size = 100, trade_tick_value = 1, trade_tick_size = 1 / 100, point = 1 / 100,
      volume_step = 1 / 100, ask = 2000, bid = 1999, spread = 30\<rparr>"

definition mt_xau :: terminal where
  "mt_xau = mt_idle\<lparr>symbol_info := (\<lambda>symb. if symb = ''XAUUSD'' then Some xau_info else None)\<rparr>"

definition mt_neg :: terminal where
  "mt_neg = mt_idle\<lparr>symbol_info :=
      (\<lambda>symb. if symb = ''XAUUSD'' then Some (xau_info\<lparr>trade_tick_value := - 1\<rparr>) else None)\<rparr>"

definition mt_eth :: terminal where
  "mt_eth = mt_idle\<lparr>symbol_info :=
      (\<lambda>symb. if symb = ''ETHUSD'' then Some (btc_info\<lparr>point := 0\<rparr>) else None)\<rparr>"

text \<open>A snapshot that satisfies the buy condition at the BTCUSD settings: fast ATR
  below slow ATR, close 2000 below the fast average 2100 by more than the gap 12.6,
  above the slow average 1900, RSI falling from 50 to 40.\<close>

definition buy_snapshot :: indicators where
  "buy_snapshot =
     \<lparr>ma_fast = (2100, 2100, 2100), ma_slow = (1900, 1900, 1900), atr_fast = (10, 10, 10),
      atr_slow = (20, 20, 20), rsi = (60, 50, 40), close = 2000\<rparr>"

text \<open>The BTCUSD terminal with that snapshot on (BTCUSD, M5), no other indicator
  data, and a server that accepts every request with ticket 77.\<close>

definition mt_signal :: terminal where
  "mt_signal = mt_btc
     \<lparr>get_indicators :=
        (\<lambda>symb tf. if symb = ''BTCUSD'' \<and> tf = 5 then Some buy_snapshot else None),
      order_send := (\<lambda>req. Some \<lparr>retcode = 10009, order = 77\<rparr>)\<rparr>"

text \<open>A long BTCUSD position of the (BTCUSD, M5) magic, opened at 1900 with stop 1850,
  two risk units (100 dollars) in profit; and a position of another symbol.\<close>

definition btc_long :: position where
  "btc_long = \<lparr>ticket = 1, symbol = ''BTCUSD'', magic = 11000, ptype = 0, volume = 1,
      price_open = 1900, sl = 1850, tp = 2150, profit = 100\<rparr>"




text \<open>Engine states: fresh after start with equity 10000; the same with a daily loss
  of 501 booked on the previous day (day 0) and on the current day (day 1).\<close>

definition s_day :: engine where
  "s_day = init_engine (Some 10000)"

definition s_loss :: engine where
  "s_loss = (init_engine (Some 10000))\<lparr>daily_profit_loss := - 501, last_trading_day := Some 0\<rparr>"

definition s_halt :: engine where
  "s_halt = (init_engine (Some 10000))\<lparr>daily_profit_loss := - 501, last_trading_day := Some 1\<rparr>"

text \<open>A ledger with one order placed at bar 100, and a terminal that still lists the
  order, reports bar 105 and answers every request with retcode 10027 (rejected:
  autotrading disabled by the client terminal).\<close>

definition tracked_order :: PendingOrder where
  "tracked_order = \<lparr>ticket = 7, symbol = ''BTCUSD'', magic = 11000, timeframe = 5,
      placement_time = 0, placement_bar = 100\<rparr>"

definition s_tracked :: engine where
  "s_tracked = (init_engine (Some 10000))\<lparr>active_orders := [tracked_order]\<rparr>"

definition mt_cancel_fails :: terminal where
  "mt_cancel_fails = mt_btc
     \<lparr>orders_get := [\<lparr>ticket = 7, symbol = ''BTCUSD'', magic = 11000\<rparr>],
      copy_rates_time := (\<lambda>symb tf. Some 105),
      order_send := (\<lambda>req. Some \<lparr>retcode = 10027, order = 0\<rparr>)\<rparr>"

text \<open>An account without funds.\<close>

definition mt_broke :: terminal where
  "mt_broke = mt_idle\<lparr>account_equity := Some 0\<rparr>"

section \<open>Repeated trailing of one position\<close>

text \<open>
  A driver for \<open>trail_position\<close> over several ticks: the position as the terminal
  reports it after one tick, where the stop and take-profit change exactly when the
  engine requested a modification and the terminal answered it with
  \<^verbatim>\<open>TRADE_RETCODE_DONE\<close>; and the position after a sequence of ticks, each with its
  own terminal, engine state and reported profit.
\<close>

definition apply_trail ::
  "terminal \<Rightarrow> engine \<Rightarrow> string \<Rightarrow> int \<Rightarrow> rat \<Rightarrow> position \<Rightarrow> position" where
  "apply_trail mt5 s symb tf trailing_factor p =
     (case trail_position mt5 s symb tf trailing_factor p of
        None \<Rightarrow> p
      | Some (new_sl, new_tp) \<Rightarrow>
          (case order_send mt5 (Sltp (ticket p) new_sl new_tp) of
             None \<Rightarrow> p
           | Some result \<Rightarrow>
               if retcode result = TRADE_RETCODE_DONE then p\<lparr>sl := new_sl, tp := new_tp\<rparr>
               else p))"

fun trail_run ::
  "string \<Rightarrow> int \<Rightarrow> rat \<Rightarrow> position \<Rightarrow> (terminal \<times> engine \<times> rat) list \<Rightarrow> position" where
  "trail_run symb tf trailing_factor p [] = p"
| "trail_run symb tf trailing_factor p ((mt5, s, pr) # rest) =
     trail_run symb tf trailing_factor
       (apply_trail mt5 s symb tf trailing_factor (p\<lparr>profit := pr\<rparr>)) rest"

section \<open>Facts about the numerics\<close>

lemma py_round_close: "\<bar>of_int (py_round x) - x\<bar> \<le> 1 / 2"
proof -
  have "of_int \<lfloor>x\<rfloor> \<le> x" "x < of_int \<lfloor>x\<rfloor> + 1" by linarith+
  then show ?thesis
    unfolding py_round_def Let_def by (simp split: if_splits)
qed

lemma float_exp_bounds:
  assumes "x \<noteq> 0"
  shows "2 powi (float_exp x) \<le> \<bar>x\<bar> \<and> \<bar>x\<bar> < 2 powi (float_exp x + 1)"
proof (cases "1 \<le> \<bar>x\<bar>")
  case True
  define m where "m = \<lfloor>\<bar>x\<bar>\<rfloor>"
  have m: "0 < m" using True by (simp add: m_def)
  have e: "float_exp x = bitlen m - 1" using True by (simp add: float_exp_def m_def)
  have b1: "1 \<le> bitlen m" using m bitlen_eq_zero_iff[of m] bitlen_nonneg[of m] by linarith
  from bitlen_bounds[OF m] have lo: "2 ^ nat (bitlen m - 1) \<le> m" and hi: "m < 2 ^ nat (bitlen m)"
    by auto
  have "(2::rat) powi (bitlen m - 1) = of_int (2 ^ nat (bitlen m - 1))"
    using b1 by (simp add: power_int_def)
  also have "\<dots> \<le> of_int m" using lo by (simp only: of_int_le_iff)
  also have "\<dots> \<le> \<bar>x\<bar>" by (simp add: m_def)
  finally have A: "2 powi (float_exp x) \<le> \<bar>x\<bar>" by (simp add: e)
  have "m + 1 \<le> 2 ^ nat (bitlen m)" using hi by simp
  then have "(of_int (m + 1) :: rat) \<le> of_int (2 ^ nat (bitlen m))" by (simp only: of_int_le_iff)
  moreover have "\<bar>x\<bar> < of_int (m + 1)" unfolding m_def by linarith
  moreover have "(2::rat) powi (bitlen m - 1 + 1) = of_int (2 ^ nat (bitlen m))"
    using b1 by (simp add: power_int_def)
  ultimately have B: "\<bar>x\<bar> < 2 powi (float_exp x + 1)" by (simp add: e)
  from A B show ?thesis by blast
next
  case False
  define a where "a = \<bar>x\<bar>"
  have a: "0 < a" "a < 1" using assms False by (simp_all add: a_def)
  define c where "c = \<lceil>1 / a\<rceil>"
  have y1: "1 < 1 / a" using a by simp
  have c2: "2 \<le> c" unfolding c_def using y1 by linarith
  define k where "k = bitlen (c - 1)"
  have cm: "0 < c - 1" using c2 by simp
  have e: "float_exp x = - k" using False by (simp add: float_exp_def k_def c_def a_def)
  have k1: "1 \<le> k" using cm bitlen_eq_zero_iff[of "c - 1"] bitlen_nonneg[of "c - 1"]
    by (simp add: k_def)
  from bitlen_bounds[OF cm] have lo: "2 ^ nat (k - 1) \<le> c - 1" and hi: "c - 1 < 2 ^ nat k"
    by (auto simp: k_def)
  have "c \<le> 2 ^ nat k" using hi by simp
  then have "(of_int c :: rat) \<le> of_int (2 ^ nat k)" by (simp only: of_int_le_iff)
  moreover have "1 / a \<le> of_int c" unfolding c_def by linarith
  ultimately have up: "1 / a \<le> 2 ^ nat k" by (simp del: of_int_power) (simp add: order_trans)
  have "(of_int (2 ^ nat (k - 1)) :: rat) \<le> of_int (c - 1)" using lo by (simp only: of_int_le_iff)
  moreover have "of_int (c - 1) < 1 / a" unfolding c_def by linarith
  ultimately have dn: "2 ^ nat (k - 1) < 1 / a" by simp
  have p: "(0::rat) < 2 ^ nat k" "(0::rat) < 2 ^ nat (k - 1)" by simp_all
  from up a p have A: "1 / 2 ^ nat k \<le> a" by (simp add: field_simps)
  from dn a p have B: "a < 1 / 2 ^ nat (k - 1)" by (simp add: field_simps)
  have pk: "(2::rat) powi (- k) = 1 / 2 ^ nat k"
    using k1 by (simp add: power_int_minus power_int_nonneg_exp inverse_eq_divide)
  have "float_exp x + 1 = - (k - 1)" by (simp add: e)
  then have "(2::rat) powi (float_exp x + 1) = 2 powi (- (k - 1))" by (simp only:)
  also have "\<dots> = 1 / 2 ^ nat (k - 1)"
    using k1 by (simp only: power_int_minus power_int_nonneg_exp inverse_eq_divide)
  finally have pk1: "(2::rat) powi (float_exp x + 1) = 1 / 2 ^ nat (k - 1)" .
  have pk0: "(2::rat) powi (float_exp x) = 1 / 2 ^ nat k" by (simp only: e pk)
  from A B show ?thesis by (simp only: pk0 pk1 a_def)
qed

lemma fl_zero [simp]: "fl 0 = 0"
  by (simp add: fl_def)

text \<open>The standard model of rounding: the relative error is at most \<open>2^-53\<close>.\<close>

lemma fl_error: "\<bar>fl x - x\<bar> \<le> \<bar>x\<bar> / 2 ^ 53"
proof (cases "x = 0")
  case True
  then show ?thesis by simp
next
  case False
  define e where "e = float_exp x"
  define y where "y = x * 2 powi (52 - e)"
  have p: "(0::rat) < 2 powi (e - 52)" by simp
  have xy: "x = y * 2 powi (e - 52)"
    by (simp add: y_def mult.assoc power_int_add[symmetric])
  have f: "fl x = of_int (py_round y) * 2 powi (e - 52)"
    using False by (simp add: fl_def Let_def e_def y_def)
  have "fl x - x = of_int (py_round y) * 2 powi (e - 52) - y * 2 powi (e - 52)"
    using f xy by simp
  then have "fl x - x = (of_int (py_round y) - y) * 2 powi (e - 52)"
    by (simp only: left_diff_distrib)
  then have "\<bar>fl x - x\<bar> = \<bar>of_int (py_round y) - y\<bar> * 2 powi (e - 52)"
    using p by (simp add: abs_mult)
  also have "\<dots> \<le> 1 / 2 * 2 powi (e - 52)"
    using py_round_close[of y] p by (simp only: mult_le_cancel_right_pos)
  also have "\<dots> = 2 powi e / 2 ^ 53"
  proof -
    have "(2::rat) powi (e - 52) = 2 powi e / 2 powi 52"
      by (rule power_int_diff) simp
    then show ?thesis by simp
  qed
  also have "\<dots> \<le> \<bar>x\<bar> / 2 ^ 53"
    using float_exp_bounds[OF False] by (simp add: e_def divide_right_mono)
  finally show ?thesis .
qed

lemma fl_pos: "0 < x \<Longrightarrow> 0 < fl x"
proof -
  assume x: "0 < x"
  have "\<bar>fl x - x\<bar> \<le> x / 2 ^ 53" using fl_error[of x] x by simp
  moreover have "x / 2 ^ 53 < x" using x by (simp add: field_simps)
  ultimately show ?thesis by linarith
qed

lemma fl_neg: "x < 0 \<Longrightarrow> fl x < 0"
proof -
  assume x: "x < 0"
  have "\<bar>fl x - x\<bar> \<le> (- x) / 2 ^ 53" using fl_error[of x] x by simp
  moreover have "(- x) / 2 ^ 53 < - x" using x by (simp add: field_simps)
  ultimately show ?thesis by linarith
qed

lemma fl_eq_0_iff: "fl x = 0 \<longleftrightarrow> x = 0"
  using fl_pos[of x] fl_neg[of x] by (cases "x = 0") (auto simp: neq_iff)

lemma fl_pos_iff: "0 < fl x \<longleftrightarrow> 0 < x"
  using fl_pos[of x] fl_neg[of x] by (cases x "0::rat" rule: linorder_cases) auto

lemma fl_neg_iff: "fl x < 0 \<longleftrightarrow> x < 0"
  using fl_pos[of x] fl_neg[of x] by (cases x "0::rat" rule: linorder_cases) auto

lemma fl_mult_pos_iff: "0 < fl a * b \<longleftrightarrow> 0 < a * b"
  by (simp add: zero_less_mult_iff fl_pos_iff fl_neg_iff)

lemma abs_diff_scale:
  fixes x y k m :: rat
  assumes "\<bar>x - y\<bar> \<le> k" and "0 \<le> m"
  shows "\<bar>x * m - y * m\<bar> \<le> k * m"
proof -
  have "x * m - y * m = (x - y) * m" by (simp add: left_diff_distrib)
  then have "\<bar>x * m - y * m\<bar> = \<bar>x - y\<bar> * m" using assms(2) by (simp add: abs_mult)
  also have "\<dots> \<le> k * m" by (rule mult_right_mono[OF assms])
  finally show ?thesis .
qed

text \<open>Two roundings in a row: \<open>fl (fl (a * b) * c)\<close> against \<open>a * b * c\<close>.\<close>

lemma fl_mult_mult:
  "\<bar>fl (fl (a * b) * c) - a * b * c\<bar> \<le> 3 * \<bar>a * b * c\<bar> / 2 ^ 53"
proof -
  define X where "X = \<bar>a * b * c\<bar>"
  have "fl (a * b) * c - a * b * c = (fl (a * b) - a * b) * c"
    by (simp add: left_diff_distrib)
  then have "\<bar>fl (a * b) * c - a * b * c\<bar> = \<bar>fl (a * b) - a * b\<bar> * \<bar>c\<bar>"
    by (simp add: abs_mult)
  also have "\<dots> \<le> \<bar>a * b\<bar> / 2 ^ 53 * \<bar>c\<bar>"
    by (rule mult_right_mono[OF fl_error]) simp
  also have "\<dots> = X / 2 ^ 53" by (simp add: X_def abs_mult)
  finally have 1: "\<bar>fl (a * b) * c - a * b * c\<bar> \<le> X / 2 ^ 53" .
  have 2: "\<bar>fl (fl (a * b) * c) - fl (a * b) * c\<bar> \<le> \<bar>fl (a * b) * c\<bar> / 2 ^ 53"
    by (rule fl_error)
  have 3: "\<bar>fl (a * b) * c\<bar> \<le> X + X / 2 ^ 53"
    using 1 unfolding X_def by linarith
  have x0: "0 \<le> X" by (simp add: X_def)
  have p53: "(2::rat) ^ 53 = 9007199254740992" by simp
  from 1 2 3 x0 show ?thesis unfolding X_def[symmetric] p53 by linarith
qed

text \<open>Rounding a double gives the same double.\<close>

lemma py_round_of_int: "py_round (of_int n) = n"
  by (simp add: py_round_def)

lemma float_exp_unique:
  assumes x: "x \<noteq> 0" and lo: "2 powi e \<le> \<bar>x\<bar>" and hi: "\<bar>x\<bar> < 2 powi (e + 1)"
  shows "float_exp x = e"
proof (rule ccontr)
  assume ne: "float_exp x \<noteq> e"
  from float_exp_bounds[OF x] have b: "2 powi (float_exp x) \<le> \<bar>x\<bar>" "\<bar>x\<bar> < 2 powi (float_exp x + 1)"
    by blast+
  consider "float_exp x + 1 \<le> e" | "e + 1 \<le> float_exp x" using ne by linarith
  then show False
  proof cases
    case 1
    then have "(2::rat) powi (float_exp x + 1) \<le> 2 powi e" by (intro power_int_increasing) simp_all
    with b lo show False by linarith
  next
    case 2
    then have "(2::rat) powi (e + 1) \<le> 2 powi (float_exp x)" by (intro power_int_increasing) simp_all
    with b hi show False by linarith
  qed
qed

lemma pow_split: "(2::rat) powi a * 2 powi b = 2 powi (a + b)"
  by (simp add: power_int_add)

lemma fl_idem: "fl (fl x) = fl x"
proof (cases "x = 0")
  case True
  then show ?thesis by simp
next
  case False
  define e where "e = float_exp x"
  define y where "y = x * 2 powi (52 - e)"
  define n where "n = py_round y"
  define s :: rat where "s = 2 powi (e - 52)"
  have s0: "0 < s" by (simp add: s_def)
  have f: "fl x = of_int n * s"
    using False by (simp add: fl_def Let_def e_def y_def n_def s_def)
  from float_exp_bounds[OF False] have b: "2 powi e \<le> \<bar>x\<bar>" "\<bar>x\<bar> < 2 powi (e + 1)"
    by (simp_all add: e_def)
  have i0: "52 - e + (e - 52) = 0" by simp
  have xs: "x = y * s" unfolding y_def s_def mult.assoc pow_split i0 by simp
  have e52: "(2::rat) powi e = 2 ^ 52 * s"
  proof -
    have i: "(52::int) + (e - 52) = e" by simp
    have "(2::rat) powi 52 * 2 powi (e - 52) = 2 powi e" unfolding pow_split i ..
    then show ?thesis by (simp add: s_def)
  qed
  have e53: "(2::rat) powi (e + 1) = 2 ^ 53 * s"
  proof -
    have i: "(53::int) + (e - 52) = e + 1" by simp
    have "(2::rat) powi 53 * 2 powi (e - 52) = 2 powi (e + 1)" unfolding pow_split i ..
    then show ?thesis by (simp add: s_def)
  qed
  have e54: "(2::rat) powi (e + 1 + 1) = 2 ^ 54 * s"
  proof -
    have i: "(54::int) + (e - 52) = e + 1 + 1" by simp
    have "(2::rat) powi 54 * 2 powi (e - 52) = 2 powi (e + 1 + 1)" unfolding pow_split i ..
    then show ?thesis by (simp add: s_def)
  qed
  have ax: "\<bar>x\<bar> = \<bar>y\<bar> * s" using s0 by (simp add: xs abs_mult)
  have y1: "2 ^ 52 \<le> \<bar>y\<bar>" using b(1) s0 unfolding ax e52 by simp
  have y2: "\<bar>y\<bar> < 2 ^ 53" using b(2) s0 unfolding ax e53 by simp
  have c: "\<bar>of_int n - y\<bar> \<le> 1 / 2" unfolding n_def by (rule py_round_close)
  have q52: "(2::rat) ^ 52 = 4503599627370496" by simp
  have q53: "(2::rat) ^ 53 = 9007199254740992" by simp
  have an: "\<bar>y\<bar> - 1 / 2 \<le> \<bar>of_int n\<bar>" "\<bar>of_int n :: rat\<bar> \<le> \<bar>y\<bar> + 1 / 2" using c by linarith+
  have "(4503599627370495 :: rat) < \<bar>of_int n\<bar>" using y1 an unfolding q52 by linarith
  then have "(of_int (2 ^ 52 - 1) :: rat) < of_int \<bar>n\<bar>" by simp
  then have n1: "2 ^ 52 \<le> \<bar>n\<bar>" unfolding of_int_less_iff by linarith
  have "\<bar>of_int n :: rat\<bar> < 9007199254740993" using y2 an unfolding q53 by linarith
  then have "(of_int \<bar>n\<bar> :: rat) < of_int (2 ^ 53 + 1)" by simp
  then have n2: "\<bar>n\<bar> \<le> 2 ^ 53" unfolding of_int_less_iff by linarith
  have n0: "n \<noteq> 0" using n1 by auto
  have nz: "fl x \<noteq> 0" using n0 s0 by (simp add: f)
  have afl: "\<bar>fl x\<bar> = of_int \<bar>n\<bar> * s" using s0 by (simp add: f abs_mult)
  show ?thesis
  proof (cases "\<bar>n\<bar> < 2 ^ 53")
    case True
    have "(of_int (2 ^ 52) :: rat) \<le> of_int \<bar>n\<bar>" using n1 by (simp only: of_int_le_iff)
    then have lo: "2 powi e \<le> \<bar>fl x\<bar>" unfolding afl e52 using s0 by simp
    have "(of_int \<bar>n\<bar> :: rat) < of_int (2 ^ 53)" using True by (simp only: of_int_less_iff)
    then have hi: "\<bar>fl x\<bar> < 2 powi (e + 1)" unfolding afl e53 using s0 by simp
    have ex: "float_exp (fl x) = e" by (rule float_exp_unique[OF nz lo hi])
    have i: "e - 52 + (52 - e) = 0" by simp
    have "s * 2 powi (52 - e) = 1" unfolding s_def pow_split i by simp
    then have m: "fl x * 2 powi (52 - e) = of_int n" by (simp add: f mult.assoc)
    have "fl (fl x) = of_int (py_round (fl x * 2 powi (52 - e))) * 2 powi (e - 52)"
      using nz by (simp add: fl_def[of "fl x"] Let_def ex)
    also have "\<dots> = of_int n * s" by (simp only: m py_round_of_int s_def)
    finally show ?thesis by (simp only: f)
  next
    case False
    then have eq: "\<bar>n\<bar> = 2 ^ 53" using n2 by simp
    have lo: "2 powi (e + 1) \<le> \<bar>fl x\<bar>" unfolding afl e53 eq by simp
    have hi: "\<bar>fl x\<bar> < 2 powi (e + 1 + 1)" unfolding afl e54 eq using s0 by simp
    have ex: "float_exp (fl x) = e + 1" by (rule float_exp_unique[OF nz lo hi])
    have "n = 9007199254740992 \<or> n = - 9007199254740992" using eq by (simp add: abs_if split: if_splits)
    then have ev: "n = 2 * (n div 2)" by (rule disjE) simp_all
    have i: "e - 52 + (52 - (e + 1)) = - 1" by simp
    have "s * 2 powi (52 - (e + 1)) = 2 powi (- 1)" unfolding s_def pow_split i ..
    then have "s * 2 powi (52 - (e + 1)) = 1 / 2" by simp
    then have "fl x * 2 powi (52 - (e + 1)) = of_int n / 2" by (simp add: f mult.assoc)
    also have "\<dots> = of_int (n div 2)" by (subst ev) simp
    finally have m: "fl x * 2 powi (52 - (e + 1)) = of_int (n div 2)" .
    have t: "(2::rat) powi (e + 1 - 52) = 2 * s"
    proof -
      have i: "(1::int) + (e - 52) = e + 1 - 52" by simp
      have "(2::rat) powi 1 * 2 powi (e - 52) = 2 powi (e + 1 - 52)" unfolding pow_split i ..
      then show ?thesis by (simp add: s_def)
    qed
    have "fl (fl x) = of_int (py_round (fl x * 2 powi (52 - (e + 1)))) * 2 powi (e + 1 - 52)"
      using nz by (simp add: fl_def[of "fl x"] Let_def ex)
    also have "\<dots> = of_int (n div 2) * (2 * s)" by (simp only: m py_round_of_int t)
    also have "\<dots> = of_int (2 * (n div 2)) * s" by simp
    also have "\<dots> = of_int n * s" using ev by simp
    finally show ?thesis by (simp only: f)
  qed
qed

lemma p53: "(2::rat) ^ 53 = 9007199254740992" by simp
lemma p49: "(2::rat) ^ 49 = 562949953421312" by simp
lemma p50: "(2::rat) ^ 50 = 1125899906842624" by simp

text \<open>A rounded product of two rounded factors.\<close>

lemma fl_mult_close:
  fixes a b a' b' :: rat
  assumes a: "\<bar>a' - a\<bar> \<le> \<bar>a\<bar> / 2 ^ 53" and b: "\<bar>b' - b\<bar> \<le> \<bar>b\<bar> / 2 ^ 53"
  shows "\<bar>fl (a' * b') - a * b\<bar> \<le> 4 * \<bar>a * b\<bar> / 2 ^ 53"
proof -
  define X where "X = \<bar>a * b\<bar>"
  define Y where "Y = a' * b'"
  have X0: "0 \<le> X" by (simp add: X_def)
  have b': "\<bar>b'\<bar> \<le> \<bar>b\<bar> + \<bar>b\<bar> / 2 ^ 53" using b by linarith
  have "\<bar>(a' - a) * b'\<bar> = \<bar>a' - a\<bar> * \<bar>b'\<bar>" by (simp add: abs_mult)
  also have "\<dots> \<le> (\<bar>a\<bar> / 2 ^ 53) * (\<bar>b\<bar> + \<bar>b\<bar> / 2 ^ 53)"
    by (rule mult_mono[OF a b']) simp_all
  also have "\<dots> = X / 2 ^ 53 + X / 2 ^ 53 / 2 ^ 53"
    by (simp add: X_def abs_mult distrib_left)
  finally have h1: "\<bar>(a' - a) * b'\<bar> \<le> X / 2 ^ 53 + X / 2 ^ 53 / 2 ^ 53" .
  have "\<bar>a * (b' - b)\<bar> = \<bar>a\<bar> * \<bar>b' - b\<bar>" by (simp add: abs_mult)
  also have "\<dots> \<le> \<bar>a\<bar> * (\<bar>b\<bar> / 2 ^ 53)"
    by (rule mult_left_mono[OF b]) simp
  also have "\<dots> = X / 2 ^ 53" by (simp add: X_def abs_mult)
  finally have h2: "\<bar>a * (b' - b)\<bar> \<le> X / 2 ^ 53" .
  have "Y - a * b = (a' - a) * b' + a * (b' - b)" by (simp add: Y_def algebra_simps)
  then have "\<bar>Y - a * b\<bar> \<le> \<bar>(a' - a) * b'\<bar> + \<bar>a * (b' - b)\<bar>" by (simp only: abs_triangle_ineq)
  with h1 h2 have h3: "\<bar>Y - a * b\<bar> \<le> 2 * X / 2 ^ 53 + X / 2 ^ 53 / 2 ^ 53" by linarith
  have "\<bar>Y\<bar> \<le> \<bar>Y - a * b\<bar> + \<bar>a * b\<bar>" by linarith
  with h3 have h4: "\<bar>Y\<bar> \<le> X + 2 * X / 2 ^ 53 + X / 2 ^ 53 / 2 ^ 53" unfolding X_def by linarith
  have h5: "\<bar>fl Y - Y\<bar> \<le> \<bar>Y\<bar> / 2 ^ 53" by (rule fl_error)
  from h3 h4 h5 X0 have "\<bar>fl Y - a * b\<bar> \<le> 4 * X / 2 ^ 53" unfolding p53 by linarith
  then show ?thesis by (simp only: X_def Y_def)
qed

lemma round2_close: "\<bar>py_round2 z - z\<bar> \<le> 1 / 200 + (\<bar>z\<bar> + 1 / 200) / 2 ^ 53"
proof -
  define K where "K = (of_int (py_round (z * 100)) :: rat) / 100"
  have "\<bar>of_int (py_round (z * 100)) - z * 100\<bar> \<le> 1 / 2" by (rule py_round_close)
  then have 1: "\<bar>K - z\<bar> \<le> 1 / 200" unfolding K_def by (simp add: abs_le_iff field_simps)
  have 2: "\<bar>fl K - K\<bar> \<le> \<bar>K\<bar> / 2 ^ 53" by (rule fl_error)
  have 3: "py_round2 z = fl K" by (simp add: py_round2_def K_def)
  from 1 2 show ?thesis unfolding 3 p53 add_divide_distrib by linarith
qed

lemma fl_RISK_PER_TRADE: "fl RISK_PER_TRADE = RISK_PER_TRADE"
  unfolding RISK_PER_TRADE_def by code_simp

lemma fl_RISK_REWARD_RATIO: "fl RISK_REWARD_RATIO = RISK_REWARD_RATIO"
  unfolding RISK_REWARD_RATIO_def by code_simp

lemma fl_MAX_LOT: "min (fl MAX_LOT_SIZE) (fl MAX_ALLOWED_LOT_SIZE) = 1"
  unfolding MAX_LOT_SIZE_def MAX_ALLOWED_LOT_SIZE_def by code_simp

lemma fl_MIN_LOT: "\<bar>fl MIN_LOT_SIZE - 1 / 100\<bar> \<le> (1 / 100) / 2 ^ 53"
  using fl_error[of "1 / 100"] by (simp add: MIN_LOT_SIZE_def)

section \<open>Lot sizing\<close>

text \<open>Snapping a lot in (0, 1] to the volume step, in doubles.\<close>

lemma snap_close:
  fixes y st :: rat
  assumes y: "0 < y" "y \<le> 1" and st: "0 < st"
  shows "\<bar>fl (st * fl (of_int (py_round (fl (y / st))))) - y\<bar>
           \<le> st / 2 + (4 + 2 * st) / 2 ^ 53 \<and>
         \<bar>fl (st * fl (of_int (py_round (fl (y / st)))))\<bar> \<le> 2 + st"
proof -
  define a where "a = fl (y / st)"
  define n :: rat where "n = of_int (py_round a)"
  define nf where "nf = fl n"
  define s1 where "s1 = fl (st * nf)"
  define A where "A = a * st"
  define N where "N = n * st"
  define NF where "NF = nf * st"
  have "\<bar>a - y / st\<bar> \<le> (y / st) / 2 ^ 53"
    using fl_error[of "y / st"] y st unfolding a_def by simp
  from abs_diff_scale[OF this, of st] st have 1: "\<bar>A - y\<bar> \<le> y / 2 ^ 53"
    by (simp add: A_def)
  have "\<bar>n - a\<bar> \<le> 1 / 2" unfolding n_def by (rule py_round_close)
  from abs_diff_scale[OF this, of st] st have 2: "\<bar>N - A\<bar> \<le> st / 2"
    by (simp add: N_def A_def)
  have "\<bar>nf - n\<bar> \<le> \<bar>n\<bar> / 2 ^ 53" unfolding nf_def by (rule fl_error)
  from abs_diff_scale[OF this, of st] st have 3: "\<bar>NF - N\<bar> \<le> \<bar>N\<bar> / 2 ^ 53"
    by (simp add: NF_def N_def abs_mult)
  have 4: "\<bar>s1 - NF\<bar> \<le> \<bar>NF\<bar> / 2 ^ 53"
    using fl_error[of "st * nf"] by (simp add: s1_def NF_def mult.commute)
  from 1 2 3 4 y st have 5: "\<bar>s1 - y\<bar> \<le> st / 2 + (4 + 2 * st) / 2 ^ 53"
    unfolding p53 add_divide_distrib by linarith
  from 1 2 3 4 y st have 6: "\<bar>s1\<bar> \<le> 2 + st"
    unfolding p53 by linarith
  from 5 6 show ?thesis by (simp only: s1_def nf_def n_def a_def)
qed

text \<open>The quotient the code computes against the exact quotient, and the clamp.\<close>

lemma quotient_close:
  fixes K RPL rpl q :: rat
  assumes K: "0 < K" and RPL: "0 < RPL"
    and rpl: "\<bar>rpl - RPL\<bar> \<le> 4 * RPL / 2 ^ 53"
    and q: "q = fl (K / rpl)"
  shows "\<bar>q - K / RPL\<bar> \<le> 6 * (K / RPL) / 2 ^ 53"
proof -
  have r0: "0 < rpl" using rpl RPL unfolding p53 by linarith
  have Kr: "0 < K / rpl" using K r0 by simp
  have q0: "0 < q" unfolding q using Kr by (rule fl_pos)
  define Q1 where "Q1 = q * RPL"
  define Q2 where "Q2 = q * rpl"
  have Q10: "0 < Q1" using q0 RPL by (simp add: Q1_def)
  have "\<bar>q - K / rpl\<bar> \<le> (K / rpl) / 2 ^ 53"
    using fl_error[of "K / rpl"] Kr unfolding q by simp
  from abs_diff_scale[OF this, of rpl] r0 have 1: "\<bar>Q2 - K\<bar> \<le> K / 2 ^ 53"
    by (simp add: Q2_def)
  from abs_diff_scale[OF rpl, of q] q0 have 2: "\<bar>Q2 - Q1\<bar> \<le> 4 * Q1 / 2 ^ 53"
    by (simp add: Q1_def Q2_def mult.commute)
  from 1 2 K Q10 have 3: "\<bar>Q1 - K\<bar> \<le> 6 * K / 2 ^ 53" unfolding p53 by linarith
  have "q * RPL - K = (q - K / RPL) * RPL" using RPL by (simp add: left_diff_distrib)
  then have "\<bar>q - K / RPL\<bar> * RPL = \<bar>Q1 - K\<bar>" using RPL by (simp add: Q1_def abs_mult)
  also have "\<dots> \<le> 6 * K / 2 ^ 53" by (rule 3)
  also have "\<dots> = (6 * (K / RPL) / 2 ^ 53) * RPL" using RPL by simp
  finally show ?thesis using RPL by (simp only: mult_le_cancel_right_pos)
qed

lemma clamp_close:
  fixes x q y :: rat
  assumes lo: "MIN_LOT_SIZE \<le> x" and hi: "x \<le> 1"
    and q: "\<bar>q - x\<bar> \<le> 6 * x / 2 ^ 53"
    and y: "y = (if q < fl MIN_LOT_SIZE then fl MIN_LOT_SIZE
                 else if min (fl MAX_LOT_SIZE) (fl MAX_ALLOWED_LOT_SIZE) < q
                      then min (fl MAX_LOT_SIZE) (fl MAX_ALLOWED_LOT_SIZE) else q)"
  shows "\<bar>y - x\<bar> \<le> 7 / 2 ^ 53" and "0 < y" and "y \<le> 1"
proof -
  define m where "m = fl MIN_LOT_SIZE"
  have m: "\<bar>m - 1 / 100\<bar> \<le> (1 / 100) / 2 ^ 53" unfolding m_def by (rule fl_MIN_LOT)
  have lo': "1 / 100 \<le> x" using lo by (simp add: MIN_LOT_SIZE_def)
  have y': "y = (if q < m then m else if 1 < q then 1 else q)"
    unfolding y fl_MAX_LOT m_def by simp
  consider (a) "q < m" | (b) "\<not> q < m" "1 < q" | (c) "\<not> q < m" "\<not> 1 < q" by blast
  then have "\<bar>y - x\<bar> \<le> 7 / 2 ^ 53 \<and> 0 < y \<and> y \<le> 1"
  proof cases
    case a
    then have e: "y = m" by (simp add: y')
    have 1: "\<bar>m - x\<bar> \<le> 7 / 2 ^ 53" using a m lo' hi q unfolding p53 by linarith
    have 2: "0 < m" using m unfolding p53 by linarith
    have 3: "m \<le> 1" using m unfolding p53 by linarith
    from 1 2 3 show ?thesis unfolding e by blast
  next
    case b
    then have e: "y = 1" by (simp add: y')
    have 1: "\<bar>1 - x\<bar> \<le> 7 / 2 ^ 53" using b m lo' hi q unfolding p53 by linarith
    from 1 show ?thesis unfolding e by simp
  next
    case c
    then have e: "y = q" by (simp add: y')
    have 1: "\<bar>q - x\<bar> \<le> 7 / 2 ^ 53" using lo' hi q unfolding p53 by linarith
    have 2: "0 < q" using lo' hi q unfolding p53 by linarith
    have 3: "q \<le> 1" using c by simp
    from 1 2 3 show ?thesis unfolding e by blast
  qed
  then show "\<bar>y - x\<bar> \<le> 7 / 2 ^ 53" and "0 < y" and "y \<le> 1" by blast+
qed

lemma loss_close:
  fixes lots :: rat
  assumes "\<bar>lots - risk_amount / risk_per_lot\<bar> \<le> tol" "0 < risk_per_lot"
  shows "\<bar>lots * risk_per_lot - risk_amount\<bar> \<le> tol * risk_per_lot"
proof -
  have "lots * risk_per_lot - risk_amount = (lots - risk_amount / risk_per_lot) * risk_per_lot"
    using assms(2) by (simp add: left_diff_distrib)
  then have "\<bar>lots * risk_per_lot - risk_amount\<bar> =
      \<bar>lots - risk_amount / risk_per_lot\<bar> * risk_per_lot"
    using assms(2) by (simp add: abs_mult)
  also have "\<dots> \<le> tol * risk_per_lot" using assms by (simp only: mult_le_cancel_right_pos)
  finally show ?thesis .
qed

text \<open>Inside the clamp range the returned lot is the quotient of budget and risk per
  lot, snapped to the volume step and rounded to two decimals, all in doubles.\<close>

lemma lot_close:
  assumes info: "symbol_info mt5 symb = Some info"
    and nz: "entry \<noteq> 0" "sl0 \<noteq> 0" "fl entry \<noteq> fl sl0"
    and pos: "0 < calculate_dollar_risk_per_point mt5 symb * fl (trade_contract_size info)"
    and rpl: "risk_per_lot =
        \<bar>fl entry - fl sl0\<bar> * (calculate_dollar_risk_per_point mt5 symb * fl (trade_contract_size info))"
    and lo: "MIN_LOT_SIZE \<le> fl risk_amount / risk_per_lot"
    and hi: "fl risk_amount / risk_per_lot \<le> min MAX_LOT_SIZE MAX_ALLOWED_LOT_SIZE"
  shows "\<bar>calculate_lot_size mt5 symb entry sl0 risk_amount - fl risk_amount / risk_per_lot\<bar>
          \<le> max 0 (fl (volume_step info)) / 2 + 1 / 200 + (2 + max 0 (fl (volume_step info))) / 2 ^ 50"
proof -
  define E where "E = fl entry"
  define S where "S = fl sl0"
  define K where "K = fl risk_amount"
  define d where "d = calculate_dollar_risk_per_point mt5 symb"
  define c where "c = fl (trade_contract_size info)"
  define st where "st = fl (volume_step info)"
  define rp where "rp = \<bar>fl (E - S)\<bar>"
  define v where "v = fl (d * c)"
  define rl where "rl = fl (rp * v)"
  define q where "q = fl (K / rl)"
  define y where "y = (if q < fl MIN_LOT_SIZE then fl MIN_LOT_SIZE
                 else if min (fl MAX_LOT_SIZE) (fl MAX_ALLOWED_LOT_SIZE) < q
                      then min (fl MAX_LOT_SIZE) (fl MAX_ALLOWED_LOT_SIZE) else q)"
  define z where "z = (if 0 < st then fl (st * fl (of_int (py_round (fl (y / st))))) else y)"
  define x where "x = K / risk_per_lot"
  have dc: "0 < d * c" using pos by (simp add: d_def c_def)
  have ES: "E - S \<noteq> 0" using nz(3) by (simp add: E_def S_def)
  have RPL: "risk_per_lot = \<bar>E - S\<bar> * (d * c)" by (simp add: rpl E_def S_def d_def c_def)
  have RPL0: "0 < risk_per_lot" unfolding RPL using ES dc by simp
  have a1: "\<bar>rp - \<bar>E - S\<bar>\<bar> \<le> \<bar>\<bar>E - S\<bar>\<bar> / 2 ^ 53"
    using fl_error[of "E - S"] unfolding rp_def by linarith
  have a2: "\<bar>v - d * c\<bar> \<le> \<bar>d * c\<bar> / 2 ^ 53" unfolding v_def by (rule fl_error)
  have "\<bar>rl - \<bar>E - S\<bar> * (d * c)\<bar> \<le> 4 * \<bar>\<bar>E - S\<bar> * (d * c)\<bar> / 2 ^ 53"
    unfolding rl_def by (rule fl_mult_close[OF a1 a2])
  then have A: "\<bar>rl - risk_per_lot\<bar> \<le> 4 * risk_per_lot / 2 ^ 53"
    using RPL0 unfolding RPL[symmetric] by simp
  have rl0: "0 < rl" using A RPL0 unfolding p53 by linarith
  have lo': "MIN_LOT_SIZE \<le> x" using lo by (simp add: x_def K_def)
  have hi': "x \<le> 1" using hi by (simp add: x_def K_def MAX_LOT_SIZE_def MAX_ALLOWED_LOT_SIZE_def)
  have "0 < x" using lo' by (simp add: MIN_LOT_SIZE_def)
  then have K0: "0 < K" using RPL0 by (simp add: x_def zero_less_divide_iff)
  have B: "\<bar>q - x\<bar> \<le> 6 * x / 2 ^ 53"
    unfolding x_def by (rule quotient_close[OF K0 RPL0 A q_def])
  note C = clamp_close[OF lo' hi' B y_def]
  have D: "\<bar>py_round2 z - z\<bar> \<le> 1 / 200 + (\<bar>z\<bar> + 1 / 200) / 2 ^ 53" by (rule round2_close)
  have F: "\<bar>py_round2 z - x\<bar> \<le> max 0 st / 2 + 1 / 200 + (2 + max 0 st) / 2 ^ 50"
  proof (cases "0 < st")
    case True
    then have zz: "z = fl (st * fl (of_int (py_round (fl (y / st)))))" by (simp add: z_def)
    from snap_close[OF C(2,3) True] have
      s1: "\<bar>z - y\<bar> \<le> st / 2 + (4 + 2 * st) / 2 ^ 53" and s2: "\<bar>z\<bar> \<le> 2 + st"
      unfolding zz by blast+
    have mx: "max 0 st = st" using True by simp
    from s1 s2 C(1) D True show ?thesis
      unfolding mx p53 p50 add_divide_distrib by linarith
  next
    case False
    then have zz: "z = y" by (simp add: z_def)
    have mx: "max 0 st = 0" using False by simp
    from C D show ?thesis unfolding mx zz p53 p50 add_divide_distrib by linarith
  qed
  have d0: "d \<noteq> 0" using dc by auto
  have nr: "\<not> rl \<le> 0" using rl0 by simp
  have e0: "fl entry \<noteq> 0" "fl sl0 \<noteq> 0" using nz by (simp_all add: fl_eq_0_iff)
  have val: "calculate_lot_size mt5 symb entry sl0 risk_amount = py_round2 z"
    unfolding calculate_lot_size_def Let_def z_def y_def q_def rl_def v_def rp_def st_def c_def
      K_def E_def S_def
    using info e0 nz(3) d0[unfolded d_def] nr[unfolded rl_def v_def rp_def c_def E_def S_def d_def]
    by (simp add: d_def)
  show ?thesis using F unfolding val x_def K_def st_def .
qed

lemma dollar_per_point_btc: "calculate_dollar_risk_per_point mt_btc ''BTCUSD'' = 1"
  by code_simp

lemma symbol_info_btc: "symbol_info mt_btc ''BTCUSD'' = Some btc_info"
  by (simp add: mt_btc_def mt_idle_def)

lemma fl_contract_btc: "fl (trade_contract_size btc_info) = 1"
  by code_simp

lemma lot_size_btc_example: "calculate_lot_size mt_btc ''BTCUSD'' 2000 1990 RISK_PER_TRADE = 1"
  by code_simp

lemma lot_size_btc_half: "calculate_lot_size mt_btc ''BTCUSD'' 2000 1900 50 = 1 / 2"
  by code_simp

text \<open>
  C1 (as stated, refuted). At the spec's own example (entry 2000, stop 1990, budget
  50, one dollar per point, contract size 1) the risk per lot is 10, so the lot before
  clamping is 5 and not 0.50; the function returns the upper bound 1, and a position
  of that size held to the stop loses 10 dollars, 40 short of the budget.
\<close>

theorem lot_size_example_counterexample:
  "calculate_dollar_risk_per_point mt_btc ''BTCUSD'' = 1 \<and>
   trade_contract_size btc_info = 1 \<and>
   RISK_PER_TRADE / (\<bar>2000 - 1990\<bar> * (calculate_dollar_risk_per_point mt_btc ''BTCUSD'' *
       trade_contract_size btc_info)) = 5 \<and>
   calculate_lot_size mt_btc ''BTCUSD'' 2000 1990 RISK_PER_TRADE = 1 \<and>
   \<bar>calculate_lot_size mt_btc ''BTCUSD'' 2000 1990 RISK_PER_TRADE *
        (\<bar>2000 - 1990\<bar> * (calculate_dollar_risk_per_point mt_btc ''BTCUSD'' *
           trade_contract_size btc_info)) - RISK_PER_TRADE\<bar> = 40"
  by (simp add: dollar_per_point_btc lot_size_btc_example)
    (simp add: btc_info_def RISK_PER_TRADE_def)

text \<open>
  C1 (amended). The function computes in doubles; \<open>fl entry\<close>, \<open>fl sl0\<close> and
  \<open>fl risk_amount\<close> are the doubles it reads. For entry and stop nonzero and different,
  a positive dollar value per point and lot, and a quotient budget / risk-per-lot inside
  [minLot, min(maxLot, maxAllowedLot)], the returned lot is within
  tol = step/2 + 0.005 + (2 + step) / 2^50 of that quotient: half a volume step from the
  snap, half a cent from \<^verbatim>\<open>round(lots, 2)\<close>, and the last term for the roundings of
  the double arithmetic. So the position held to the stop loses within
  tol * riskPerLot of the budget. Nothing is said of a quotient outside the range, where
  the clamped lot is snapped and rounded in turn. At the example input the quotient is
  5 and the returned lot is the bound 1.
\<close>

theorem lot_size_risk_normalization:
  assumes "symbol_info mt5 symb = Some info"
    and "entry \<noteq> 0" and "sl0 \<noteq> 0" and "fl entry \<noteq> fl sl0"
    and "0 < calculate_dollar_risk_per_point mt5 symb * fl (trade_contract_size info)"
    and "risk_per_lot =
        \<bar>fl entry - fl sl0\<bar> * (calculate_dollar_risk_per_point mt5 symb * fl (trade_contract_size info))"
    and "MIN_LOT_SIZE \<le> fl risk_amount / risk_per_lot"
    and "fl risk_amount / risk_per_lot \<le> min MAX_LOT_SIZE MAX_ALLOWED_LOT_SIZE"
    and "tol = max 0 (fl (volume_step info)) / 2 + 1 / 200 + (2 + max 0 (fl (volume_step info))) / 2 ^ 50"
  shows "\<bar>calculate_lot_size mt5 symb entry sl0 risk_amount - fl risk_amount / risk_per_lot\<bar> \<le> tol \<and>
         \<bar>calculate_lot_size mt5 symb entry sl0 risk_amount * risk_per_lot - fl risk_amount\<bar>
           \<le> tol * risk_per_lot \<and>
         RISK_PER_TRADE / (\<bar>2000 - 1990\<bar> * (calculate_dollar_risk_per_point mt_btc ''BTCUSD'' *
             trade_contract_size btc_info)) = 5 \<and>
         calculate_lot_size mt_btc ''BTCUSD'' 2000 1990 RISK_PER_TRADE = 1"
proof -
  have r: "0 < risk_per_lot" using assms(4,5,6) by simp
  have c: "\<bar>calculate_lot_size mt5 symb entry sl0 risk_amount - fl risk_amount / risk_per_lot\<bar> \<le> tol"
    unfolding assms(9) by (rule lot_close[OF assms(1-8)])
  have l: "\<bar>calculate_lot_size mt5 symb entry sl0 risk_amount * risk_per_lot - fl risk_amount\<bar>
           \<le> tol * risk_per_lot"
    by (rule loss_close[OF c r])
  have e: "RISK_PER_TRADE / (\<bar>2000 - 1990\<bar> * (calculate_dollar_risk_per_point mt_btc ''BTCUSD'' *
             trade_contract_size btc_info)) = 5"
    by (simp add: dollar_per_point_btc RISK_PER_TRADE_def btc_info_def)
  from c l e lot_size_btc_example show ?thesis by blast
qed

theorem lot_size_risk_normalization_witness:
  "symbol_info mt_btc ''BTCUSD'' = Some btc_info \<and>
   fl 2000 \<noteq> fl 1900 \<and>
   0 < calculate_dollar_risk_per_point mt_btc ''BTCUSD'' * fl (trade_contract_size btc_info) \<and>
   MIN_LOT_SIZE \<le> fl 50 / 100 \<and> fl 50 / 100 \<le> min MAX_LOT_SIZE MAX_ALLOWED_LOT_SIZE \<and>
   calculate_lot_size mt_btc ''BTCUSD'' 2000 1900 50 = 1 / 2 \<and>
   \<bar>calculate_lot_size mt_btc ''BTCUSD'' 2000 1900 50 - fl 50 / 100\<bar>
      \<le> fl (1 / 100) / 2 + 1 / 200 + (2 + fl (1 / 100)) / 2 ^ 50 \<and>
   \<bar>calculate_lot_size mt_btc ''BTCUSD'' 2000 1900 50 * 100 - fl 50\<bar>
      \<le> (fl (1 / 100) / 2 + 1 / 200 + (2 + fl (1 / 100)) / 2 ^ 50) * 100"
proof -
  have h1: "symbol_info mt_btc ''BTCUSD'' = Some btc_info" by (rule symbol_info_btc)
  have h2: "fl 2000 \<noteq> fl 1900" by code_simp
  have h3: "0 < calculate_dollar_risk_per_point mt_btc ''BTCUSD'' * fl (trade_contract_size btc_info)"
    by (simp add: dollar_per_point_btc fl_contract_btc)
  have h4: "(100::rat) = \<bar>fl 2000 - fl 1900\<bar> *
      (calculate_dollar_risk_per_point mt_btc ''BTCUSD'' * fl (trade_contract_size btc_info))"
    unfolding dollar_per_point_btc fl_contract_btc by code_simp
  have h5: "MIN_LOT_SIZE \<le> fl 50 / 100" by code_simp
  have h6: "fl 50 / 100 \<le> min MAX_LOT_SIZE MAX_ALLOWED_LOT_SIZE" by code_simp
  have st: "max 0 (fl (volume_step btc_info)) = fl (1 / 100)" by code_simp
  have "\<bar>calculate_lot_size mt_btc ''BTCUSD'' 2000 1900 50 - fl 50 / 100\<bar>
      \<le> fl (1 / 100) / 2 + 1 / 200 + (2 + fl (1 / 100)) / 2 ^ 50 \<and>
   \<bar>calculate_lot_size mt_btc ''BTCUSD'' 2000 1900 50 * 100 - fl 50\<bar>
      \<le> (fl (1 / 100) / 2 + 1 / 200 + (2 + fl (1 / 100)) / 2 ^ 50) * 100"
    using lot_size_risk_normalization[OF h1 _ _ h2 h3 h4 h5 h6 refl] unfolding st by simp
  with h1 h2 h3 h5 h6 lot_size_btc_half show ?thesis by blast
qed

section \<open>Fixed-risk adjustment\<close>

text \<open>The rounding of stop distance and take-profit distance.\<close>

lemma risk_bound:
  fixes P p E R r q w s :: rat
  assumes P: "0 < P" and p: "0 < p" and R: "0 < R"
    and r: "\<bar>r - P\<bar> \<le> 3 * P / 2 ^ 53"
    and q: "q = fl (R / r)"
    and w: "w = fl (q * p)"
    and s: "\<bar>(E - s) - w\<bar> \<le> (\<bar>E\<bar> + w) / 2 ^ 53 \<or> \<bar>(s - E) - w\<bar> \<le> (\<bar>E\<bar> + w) / 2 ^ 53"
  shows "\<bar>P * (\<bar>E - s\<bar> / p) - R\<bar> \<le> (R + P * \<bar>E\<bar> / p) / 2 ^ 49"
proof -
  have r0: "0 < r" using r P unfolding p53 by linarith
  have Rr: "0 < R / r" using R r0 by simp
  have q0: "0 < q" unfolding q using Rr by (rule fl_pos)
  have w0: "0 < w" unfolding w using q0 p by (intro fl_pos mult_pos_pos)
  define m where "m = P / p"
  have m0: "0 < m" using P p by (simp add: m_def)
  define A where "A = P * q"
  define B where "B = r * q"
  define C where "C = w * m"
  define D where "D = \<bar>E - s\<bar> * m"
  define F where "F = \<bar>E\<bar> * m"
  have A0: "0 < A" using P q0 by (simp add: A_def)
  have F0: "0 \<le> F" using m0 by (simp add: F_def)
  have f1: "\<bar>B - A\<bar> \<le> 3 * A / 2 ^ 53"
    using abs_diff_scale[OF r, of q] q0 by (simp add: A_def B_def)
  have "\<bar>q - R / r\<bar> \<le> (R / r) / 2 ^ 53"
    using fl_error[of "R / r"] Rr unfolding q by simp
  from abs_diff_scale[OF this, of r] r0 have f2: "\<bar>B - R\<bar> \<le> R / 2 ^ 53"
    by (simp add: B_def mult.commute)
  have "\<bar>w - q * p\<bar> \<le> (q * p) / 2 ^ 53"
    using fl_error[of "q * p"] q0 p unfolding w by (simp add: abs_mult)
  from abs_diff_scale[OF this, of m] m0 p have f3: "\<bar>C - A\<bar> \<le> A / 2 ^ 53"
    by (simp add: C_def A_def m_def mult.commute)
  have g: "\<bar>\<bar>E - s\<bar> - w\<bar> \<le> (\<bar>E\<bar> + w) / 2 ^ 53"
    using s w0 unfolding p53 by linarith
  from abs_diff_scale[OF g, of m] m0 have f4: "\<bar>D - C\<bar> \<le> F / 2 ^ 53 + C / 2 ^ 53"
    by (simp add: D_def C_def F_def distrib_right add_divide_distrib)
  have e1: "P * (\<bar>E - s\<bar> / p) = D" by (simp add: D_def m_def)
  have e2: "P * \<bar>E\<bar> / p = F" by (simp add: F_def m_def)
  from f1 f2 f3 f4 A0 F0 R show ?thesis
    unfolding e1 e2 p53 p49 add_divide_distrib by linarith
qed

lemma reward_core:
  fixes y :: rat
  assumes 1: "\<bar>sd - y\<bar> \<le> \<bar>y\<bar> / 2 ^ 53"
    and 2: "\<bar>g - sd * 5\<bar> \<le> \<bar>sd * 5\<bar> / 2 ^ 53"
    and 3: "\<bar>z - g\<bar> \<le> (\<bar>E\<bar> + \<bar>g\<bar>) / 2 ^ 53"
  shows "\<bar>z - 5 * y\<bar> \<le> (\<bar>E\<bar> + 5 * \<bar>y\<bar>) / 2 ^ 50"
proof -
  have b2: "\<bar>g - 5 * sd\<bar> \<le> 5 * \<bar>sd\<bar> / 2 ^ 53"
    using 2 by (simp add: abs_mult mult.commute)
  from 1 b2 3 show ?thesis unfolding p53 p50 add_divide_distrib by linarith
qed

lemma reward_bound_buy:
  fixes E s :: rat
  assumes sd: "sd = fl (E - s)" and g: "g = fl (sd * 5)" and t: "t = fl (E + g)"
  shows "\<bar>(t - E) - 5 * (E - s)\<bar> \<le> (\<bar>E\<bar> + 5 * \<bar>E - s\<bar>) / 2 ^ 50"
proof -
  have 1: "\<bar>sd - (E - s)\<bar> \<le> \<bar>E - s\<bar> / 2 ^ 53" unfolding sd by (rule fl_error)
  have 2: "\<bar>g - sd * 5\<bar> \<le> \<bar>sd * 5\<bar> / 2 ^ 53" unfolding g by (rule fl_error)
  have "\<bar>t - (E + g)\<bar> \<le> \<bar>E + g\<bar> / 2 ^ 53" unfolding t by (rule fl_error)
  also have "\<dots> \<le> (\<bar>E\<bar> + \<bar>g\<bar>) / 2 ^ 53" by (simp add: divide_right_mono)
  finally have 3: "\<bar>(t - E) - g\<bar> \<le> (\<bar>E\<bar> + \<bar>g\<bar>) / 2 ^ 53" by (simp add: algebra_simps)
  show ?thesis by (rule reward_core[OF 1 2 3])
qed

lemma reward_bound_sell:
  fixes E s :: rat
  assumes sd: "sd = fl (s - E)" and g: "g = fl (sd * 5)" and t: "t = fl (E - g)"
  shows "\<bar>(E - t) - 5 * (s - E)\<bar> \<le> (\<bar>E\<bar> + 5 * \<bar>s - E\<bar>) / 2 ^ 50"
proof -
  have 1: "\<bar>sd - (s - E)\<bar> \<le> \<bar>s - E\<bar> / 2 ^ 53" unfolding sd by (rule fl_error)
  have 2: "\<bar>g - sd * 5\<bar> \<le> \<bar>sd * 5\<bar> / 2 ^ 53" unfolding g by (rule fl_error)
  have "E - t - g = - (t - (E - g))" by simp
  then have "\<bar>E - t - g\<bar> = \<bar>t - (E - g)\<bar>" by (simp only: abs_minus)
  also have "\<dots> \<le> \<bar>E - g\<bar> / 2 ^ 53" unfolding t by (rule fl_error)
  also have "\<dots> \<le> (\<bar>E\<bar> + \<bar>g\<bar>) / 2 ^ 53" by (simp add: divide_right_mono)
  finally have 3: "\<bar>(E - t) - g\<bar> \<le> (\<bar>E\<bar> + \<bar>g\<bar>) / 2 ^ 53" .
  show ?thesis by (rule reward_core[OF 1 2 3])
qed

lemma adjust_value:
  assumes info: "symbol_info mt5 symb = Some info"
    and pos: "0 < calculate_dollar_risk_per_point mt5 symb * fl (trade_contract_size info) * fl lot"
    and w: "w = fl (fl (RISK_PER_TRADE /
                fl (fl (calculate_dollar_risk_per_point mt5 symb * fl (trade_contract_size info)) * fl lot)) *
              fl (point info))"
  shows "adjust_risk_for_fixed_dollar mt5 symb a b entry lot is_buy atr_value =
     (if is_buy
      then (fl (fl entry - w),
            fl (fl entry + fl (fl (fl entry - fl (fl entry - w)) * RISK_REWARD_RATIO)))
      else (fl (fl entry + w),
            fl (fl entry - fl (fl (fl (fl entry + w) - fl entry) * RISK_REWARD_RATIO))))"
proof -
  have d: "calculate_dollar_risk_per_point mt5 symb \<noteq> 0" using pos by auto
  have "0 < fl (calculate_dollar_risk_per_point mt5 symb * fl (trade_contract_size info)) * fl lot"
    using pos by (simp only: fl_mult_pos_iff)
  then have "0 < fl (fl (calculate_dollar_risk_per_point mt5 symb * fl (trade_contract_size info)) * fl lot)"
    by (simp only: fl_pos_iff)
  then have r: "\<not> fl (fl (calculate_dollar_risk_per_point mt5 symb * fl (trade_contract_size info)) * fl lot) \<le> 0"
    by simp
  show ?thesis
    unfolding adjust_risk_for_fixed_dollar_def Let_def w fl_RISK_PER_TRADE fl_RISK_REWARD_RATIO
    using info d r by simp
qed

lemma adjust_idempotent:
  assumes "adjust_risk_for_fixed_dollar mt5 symb sl0 tp0 entry lot is_buy atr_value = (new_sl, new_tp)"
  shows "adjust_risk_for_fixed_dollar mt5 symb new_sl new_tp entry lot is_buy atr_value = (new_sl, new_tp)"
  using assms unfolding adjust_risk_for_fixed_dollar_def Let_def
  by (auto split: if_splits)

lemma adjust_xau_example:
  "adjust_risk_for_fixed_dollar mt_xau ''XAUUSD'' 1990 2050 2000 1 True 3 =
     (2199017757993861 / 2 ^ 40, 2199050743342695 / 2 ^ 40)"
  by code_simp

text \<open>
  C6 (as stated, refuted). With contract size 100 and point 0.01, entry 2000 and lot 1,
  the function returns the double nearest to 1999.995 as the stop, and the implied risk
  lot * (|entry - stop| / point) * dollarPerPoint * contractSize of that stop is
  3435973836875 / 2^36 = 50.0000000010914 and not the budget 50, and evaluated in
  doubles it is not 50 either. With a point size of 0 and a dollar value per point of
  1 the returned stop is the entry itself. With a dollar value per point of -1 the
  guard \<^verbatim>\<open>risk_per_point <= 0\<close> returns stop and take-profit as they came in, for an
  implied risk of -100000.
\<close>

theorem fixed_risk_not_exact_counterexample:
  "calculate_dollar_risk_per_point mt_xau ''XAUUSD'' = 1 \<and>
   adjust_risk_for_fixed_dollar mt_xau ''XAUUSD'' 1990 2050 2000 1 True 3 =
     (2199017757993861 / 2 ^ 40, 2199050743342695 / 2 ^ 40) \<and>
   1 * (\<bar>2000 - 2199017757993861 / 2 ^ 40\<bar> / point xau_info) *
      calculate_dollar_risk_per_point mt_xau ''XAUUSD'' * trade_contract_size xau_info
     = 3435973836875 / 2 ^ 36 \<and>
   3435973836875 / 2 ^ 36 \<noteq> RISK_PER_TRADE \<and>
   fl (fl (fl (1 * fl (fl \<bar>2000 - 2199017757993861 / 2 ^ 40\<bar> / fl (point xau_info))) *
      calculate_dollar_risk_per_point mt_xau ''XAUUSD'') * fl (trade_contract_size xau_info))
     \<noteq> RISK_PER_TRADE \<and>
   calculate_dollar_risk_per_point mt_eth ''ETHUSD'' = 1 \<and>
   symbol_info mt_eth ''ETHUSD'' = Some (btc_info\<lparr>point := 0\<rparr>) \<and>
   adjust_risk_for_fixed_dollar mt_eth ''ETHUSD'' 1990 2050 2000 1 True 3 = (2000, 2000) \<and>
   calculate_dollar_risk_per_point mt_neg ''XAUUSD'' = - 1 \<and>
   adjust_risk_for_fixed_dollar mt_neg ''XAUUSD'' 1990 2050 2000 1 True 3 = (1990, 2050) \<and>
   1 * (\<bar>2000 - 1990\<bar> / point xau_info) * calculate_dollar_risk_per_point mt_neg ''XAUUSD'' *
      trade_contract_size xau_info = - 100000"
  by code_simp

text \<open>
  C6 (amended). For a symbol with symbol info, a positive point size and a positive risk
  per point (dollarPerPoint * contractSize * lot > 0: the guard of the function itself),
  with \<open>fl entry\<close>, \<open>fl lot\<close>, \<open>fl (point info)\<close> and \<open>fl (trade_contract_size info)\<close>
  the doubles the function reads: the implied risk
  lot * (|entry - stop| / point) * dollarPerPoint * contractSize of the returned stop
  differs from the budget by at most
  (budget + dollarPerPoint * contractSize * lot * |entry| / point) / 2^49, the rounding
  of the double arithmetic; the take-profit distance is the reward ratio times the stop
  distance up to (|entry| + ratio * |entry - stop|) / 2^50; and adjusting the adjusted
  pair again with the same lot returns exactly the same pair.
\<close>

theorem fixed_risk_adjustment:
  assumes info: "symbol_info mt5 symb = Some info"
    and pos: "0 < calculate_dollar_risk_per_point mt5 symb * fl (trade_contract_size info) * fl lot"
    and pt: "0 < point info"
    and res: "adjust_risk_for_fixed_dollar mt5 symb sl0 tp0 entry lot is_buy atr_value =
                (new_sl, new_tp)"
  shows "\<bar>fl lot * (\<bar>fl entry - new_sl\<bar> / fl (point info)) *
            calculate_dollar_risk_per_point mt5 symb * fl (trade_contract_size info) - RISK_PER_TRADE\<bar>
           \<le> (RISK_PER_TRADE +
               calculate_dollar_risk_per_point mt5 symb * fl (trade_contract_size info) * fl lot *
                 \<bar>fl entry\<bar> / fl (point info)) / 2 ^ 49 \<and>
         (if is_buy
          then \<bar>(new_tp - fl entry) - RISK_REWARD_RATIO * (fl entry - new_sl)\<bar>
                 \<le> (\<bar>fl entry\<bar> + RISK_REWARD_RATIO * \<bar>fl entry - new_sl\<bar>) / 2 ^ 50
          else \<bar>(fl entry - new_tp) - RISK_REWARD_RATIO * (new_sl - fl entry)\<bar>
                 \<le> (\<bar>fl entry\<bar> + RISK_REWARD_RATIO * \<bar>new_sl - fl entry\<bar>) / 2 ^ 50) \<and>
         adjust_risk_for_fixed_dollar mt5 symb new_sl new_tp entry lot is_buy atr_value =
           (new_sl, new_tp)"
proof -
  define d where "d = calculate_dollar_risk_per_point mt5 symb"
  define c where "c = fl (trade_contract_size info)"
  define L where "L = fl lot"
  define E where "E = fl entry"
  define p where "p = fl (point info)"
  define P where "P = d * c * L"
  define r where "r = fl (fl (d * c) * L)"
  define q where "q = fl (RISK_PER_TRADE / r)"
  define w where "w = fl (q * p)"
  have P0: "0 < P" using pos by (simp add: P_def d_def c_def L_def)
  have p0: "0 < p" unfolding p_def using pt by (rule fl_pos)
  have R0: "0 < RISK_PER_TRADE" by (simp add: RISK_PER_TRADE_def)
  have rP: "\<bar>r - P\<bar> \<le> 3 * P / 2 ^ 53"
    using fl_mult_mult[of d c L] P0 by (simp add: r_def P_def)
  have r0: "0 < r" using rP P0 unfolding p53 by linarith
  have q0: "0 < q" unfolding q_def using R0 r0 by (intro fl_pos divide_pos_pos)
  have w0: "0 < w" unfolding w_def using q0 p0 by (intro fl_pos mult_pos_pos)
  have wv: "w = fl (fl (RISK_PER_TRADE /
                fl (fl (calculate_dollar_risk_per_point mt5 symb * fl (trade_contract_size info)) * fl lot)) *
              fl (point info))"
    by (simp add: w_def q_def r_def d_def c_def L_def p_def)
  note eq = adjust_value[OF info pos wv, of sl0 tp0 entry is_buy atr_value, folded E_def]
  have sl: "new_sl = (if is_buy then fl (E - w) else fl (E + w))"
    using res eq by (auto split: if_splits)
  have tp: "new_tp = (if is_buy then fl (E + fl (fl (E - new_sl) * RISK_REWARD_RATIO))
                      else fl (E - fl (fl (new_sl - E) * RISK_REWARD_RATIO)))"
    using res eq by (auto split: if_splits)
  have near: "\<bar>(E - new_sl) - w\<bar> \<le> (\<bar>E\<bar> + w) / 2 ^ 53 \<or> \<bar>(new_sl - E) - w\<bar> \<le> (\<bar>E\<bar> + w) / 2 ^ 53"
  proof (cases is_buy)
    case True
    have "E - new_sl - w = - (new_sl - (E - w))" by simp
    then have "\<bar>E - new_sl - w\<bar> = \<bar>new_sl - (E - w)\<bar>" by (simp only: abs_minus)
    also have "\<dots> \<le> \<bar>E - w\<bar> / 2 ^ 53" unfolding sl using True fl_error[of "E - w"] by (simp only: if_True)
    also have "\<dots> \<le> (\<bar>E\<bar> + w) / 2 ^ 53" using w0 by (simp add: divide_right_mono)
    finally show ?thesis by blast
  next
    case False
    have "new_sl - E - w = new_sl - (E + w)" by simp
    then have "\<bar>new_sl - E - w\<bar> = \<bar>new_sl - (E + w)\<bar>" by (simp only:)
    also have "\<dots> \<le> \<bar>E + w\<bar> / 2 ^ 53" unfolding sl using False fl_error[of "E + w"] by (simp only: if_False)
    also have "\<dots> \<le> (\<bar>E\<bar> + w) / 2 ^ 53" using w0 by (simp add: divide_right_mono)
    finally show ?thesis by blast
  qed
  have "\<bar>P * (\<bar>E - new_sl\<bar> / p) - RISK_PER_TRADE\<bar> \<le> (RISK_PER_TRADE + P * \<bar>E\<bar> / p) / 2 ^ 49"
    by (rule risk_bound[OF P0 p0 R0 rP q_def w_def near])
  moreover have "P * (\<bar>E - new_sl\<bar> / p) = L * (\<bar>E - new_sl\<bar> / p) * d * c"
    by (simp add: P_def)
  ultimately have 1: "\<bar>L * (\<bar>E - new_sl\<bar> / p) * d * c - RISK_PER_TRADE\<bar>
      \<le> (RISK_PER_TRADE + d * c * L * \<bar>E\<bar> / p) / 2 ^ 49"
    by (simp only: P_def)
  have 2: "(if is_buy
          then \<bar>(new_tp - E) - RISK_REWARD_RATIO * (E - new_sl)\<bar>
                 \<le> (\<bar>E\<bar> + RISK_REWARD_RATIO * \<bar>E - new_sl\<bar>) / 2 ^ 50
          else \<bar>(E - new_tp) - RISK_REWARD_RATIO * (new_sl - E)\<bar>
                 \<le> (\<bar>E\<bar> + RISK_REWARD_RATIO * \<bar>new_sl - E\<bar>) / 2 ^ 50)"
  proof (cases is_buy)
    case True
    have "new_tp = fl (E + fl (fl (E - new_sl) * 5))"
      using True tp by (simp add: RISK_REWARD_RATIO_def)
    from reward_bound_buy[OF refl refl this] True show ?thesis
      by (simp only: RISK_REWARD_RATIO_def if_True)
  next
    case False
    have "new_tp = fl (E - fl (fl (new_sl - E) * 5))"
      using False tp by (simp add: RISK_REWARD_RATIO_def)
    from reward_bound_sell[OF refl refl this] False show ?thesis
      by (simp only: RISK_REWARD_RATIO_def if_False)
  qed
  have 3: "adjust_risk_for_fixed_dollar mt5 symb new_sl new_tp entry lot is_buy atr_value =
      (new_sl, new_tp)"
    by (rule adjust_idempotent[OF res])
  from 1 2 3 show ?thesis unfolding d_def c_def L_def E_def p_def by blast
qed

theorem fixed_risk_adjustment_witness:
  "symbol_info mt_xau ''XAUUSD'' = Some xau_info \<and>
   0 < calculate_dollar_risk_per_point mt_xau ''XAUUSD'' * fl (trade_contract_size xau_info) * fl 1 \<and>
   0 < point xau_info \<and>
   adjust_risk_for_fixed_dollar mt_xau ''XAUUSD'' 1990 2050 2000 1 True 3 =
     (2199017757993861 / 2 ^ 40, 2199050743342695 / 2 ^ 40) \<and>
   \<bar>fl 1 * (\<bar>fl 2000 - 2199017757993861 / 2 ^ 40\<bar> / fl (point xau_info)) *
       calculate_dollar_risk_per_point mt_xau ''XAUUSD'' * fl (trade_contract_size xau_info) -
       RISK_PER_TRADE\<bar>
     \<le> (RISK_PER_TRADE +
          calculate_dollar_risk_per_point mt_xau ''XAUUSD'' * fl (trade_contract_size xau_info) * fl 1 *
            \<bar>fl 2000\<bar> / fl (point xau_info)) / 2 ^ 49 \<and>
   \<bar>(2199050743342695 / 2 ^ 40 - fl 2000) -
       RISK_REWARD_RATIO * (fl 2000 - 2199017757993861 / 2 ^ 40)\<bar>
     \<le> (\<bar>fl 2000\<bar> + RISK_REWARD_RATIO * \<bar>fl 2000 - 2199017757993861 / 2 ^ 40\<bar>) / 2 ^ 50 \<and>
   adjust_risk_for_fixed_dollar mt_xau ''XAUUSD'' (2199017757993861 / 2 ^ 40)
       (2199050743342695 / 2 ^ 40) 2000 1 True 3 =
     (2199017757993861 / 2 ^ 40, 2199050743342695 / 2 ^ 40)"
proof -
  have h1: "symbol_info mt_xau ''XAUUSD'' = Some xau_info" by (simp add: mt_xau_def)
  have h2: "0 < calculate_dollar_risk_per_point mt_xau ''XAUUSD'' *
      fl (trade_contract_size xau_info) * fl 1"
    by code_simp
  have h3: "0 < point xau_info" by (simp add: xau_info_def)
  note h4 = adjust_xau_example
  from fixed_risk_adjustment[OF h1 h2 h3 h4] h1 h2 h3 h4 show ?thesis
    by (simp only: if_True simp_thms)
qed

section \<open>Session gate\<close>

text \<open>
  C8. With the clock read in the one reference zone and minutes in 0..59: on Sunday
  trading is allowed exactly from the open time (22:15) on, so not one minute before
  and at the open time itself; on Friday exactly before the close time (21:45), so one
  minute before and not at the close time itself; never on Saturday; always Monday to
  Thursday.
\<close>

theorem session_gate_exact:
  assumes "0 \<le> lagos_minute mt5" and "lagos_minute mt5 < 60"
  shows "(lagos_weekday mt5 = 6 \<longrightarrow>
            is_trading_session mt5 =
              (SUNDAY_OPEN_HOUR * 60 + SUNDAY_OPEN_MIN \<le> lagos_hour mt5 * 60 + lagos_minute mt5)) \<and>
         (lagos_weekday mt5 = 4 \<longrightarrow>
            is_trading_session mt5 =
              (lagos_hour mt5 * 60 + lagos_minute mt5 < DAILY_CLOSE_HOUR * 60 + DAILY_CLOSE_MIN)) \<and>
         (lagos_weekday mt5 = 5 \<longrightarrow> \<not> is_trading_session mt5) \<and>
         (lagos_weekday mt5 \<in> {0, 1, 2, 3} \<longrightarrow> is_trading_session mt5)"
  using assms
  unfolding is_trading_session_def ENABLE_SESSION_def SUNDAY_OPEN_HOUR_def SUNDAY_OPEN_MIN_def
    DAILY_CLOSE_HOUR_def DAILY_CLOSE_MIN_def
  by auto

theorem session_gate_exact_witness:
  "\<not> is_trading_session (clock 6 22 14) \<and> is_trading_session (clock 6 22 15) \<and>
   is_trading_session (clock 4 21 44) \<and> \<not> is_trading_session (clock 4 21 45) \<and>
   \<not> is_trading_session (clock 5 12 0) \<and> is_trading_session (clock 0 23 59)"
proof -
  have m: "0 \<le> lagos_minute (clock wd h 14) \<and> lagos_minute (clock wd h 14) < 60"
          "0 \<le> lagos_minute (clock wd h 15) \<and> lagos_minute (clock wd h 15) < 60"
          "0 \<le> lagos_minute (clock wd h 44) \<and> lagos_minute (clock wd h 44) < 60"
          "0 \<le> lagos_minute (clock wd h 45) \<and> lagos_minute (clock wd h 45) < 60"
          "0 \<le> lagos_minute (clock wd h 0) \<and> lagos_minute (clock wd h 0) < 60"
          "0 \<le> lagos_minute (clock wd h 59) \<and> lagos_minute (clock wd h 59) < 60" for wd h
    by (simp_all add: clock_def mt_idle_def)
  have f: "lagos_weekday (clock wd h mi) = wd" "lagos_hour (clock wd h mi) = h"
          "lagos_minute (clock wd h mi) = mi" for wd h mi
    by (simp_all add: clock_def mt_idle_def)
  have a: "\<not> is_trading_session (clock 6 22 14)"
    using session_gate_exact[of "clock 6 22 14"] m(1)[of 6 22]
    by (simp add: f SUNDAY_OPEN_HOUR_def SUNDAY_OPEN_MIN_def)
  have b: "is_trading_session (clock 6 22 15)"
    using session_gate_exact[of "clock 6 22 15"] m(2)[of 6 22]
    by (simp add: f SUNDAY_OPEN_HOUR_def SUNDAY_OPEN_MIN_def)
  have c: "is_trading_session (clock 4 21 44)"
    using session_gate_exact[of "clock 4 21 44"] m(3)[of 4 21]
    by (simp add: f DAILY_CLOSE_HOUR_def DAILY_CLOSE_MIN_def)
  have d: "\<not> is_trading_session (clock 4 21 45)"
    using session_gate_exact[of "clock 4 21 45"] m(4)[of 4 21]
    by (simp add: f DAILY_CLOSE_HOUR_def DAILY_CLOSE_MIN_def)
  have e: "\<not> is_trading_session (clock 5 12 0)"
    using session_gate_exact[of "clock 5 12 0"] m(5)[of 5 12]
    by (simp add: f)
  have g: "is_trading_session (clock 0 23 59)"
    using session_gate_exact[of "clock 0 23 59"] m(6)[of 0 23]
    by (simp add: f)
  from a b c d e g show ?thesis by blast
qed

section \<open>Entry conditions\<close>

text \<open>
  C9. For every snapshot and every gap and RSI settings the buy and the sell condition
  are never both true (one needs the RSI to have fallen, the other to have risen), and
  the new-trade logic tests the buy condition first: when it holds, the buy branch
  runs whatever the sell condition is.
\<close>

theorem buy_sell_exclusive_buy_first:
  "\<not> (buy_condition ind min_ma_gap rsi_upper \<and> sell_condition ind min_ma_gap rsi_lower) \<and>
   new_trade_logic mt5 symb tf atr_value sl_factor mg current_bars True sell_cond existing s =
     (if existing < MAX_TRADES_PER_SYMBOL_TF
      then (case symbol_info mt5 symb of
              None \<Rightarrow> s
            | Some info \<Rightarrow> buy_branch mt5 symb tf info atr_value sl_factor mg current_bars s)
      else s)"
  by (auto simp: buy_condition_def sell_condition_def new_trade_logic_def Let_def
      split: option.splits)

theorem buy_sell_exclusive_buy_first_witness:
  "buy_condition buy_snapshot MIN_MA_GAP 70 \<and> \<not> sell_condition buy_snapshot MIN_MA_GAP 30"
proof -
  have b: "buy_condition buy_snapshot MIN_MA_GAP 70"
    by (simp add: buy_condition_def buy_snapshot_def idx1_def idx2_def Let_def MIN_MA_GAP_def
        ENABLE_BUY_def)
  with buy_sell_exclusive_buy_first[of buy_snapshot MIN_MA_GAP 70 30] show ?thesis by blast
qed

section \<open>Magic numbers\<close>

lemma index_of_Some: "index_of xs x = Some i \<Longrightarrow> i < length xs \<and> xs ! i = x"
  by (induction xs arbitrary: i) (auto split: if_splits)

lemma index_of_mem: "x \<in> set xs \<Longrightarrow> \<exists>i. index_of xs x = Some i"
  by (induction xs) auto

lemma magic_number_inj:
  assumes "magic_number s1 t1 = Some m" "magic_number s2 t2 = Some m"
  shows "s1 = s2 \<and> t1 = t2"
proof -
  from assms(1) obtain i1 j1 where a: "index_of SYMBOLS s1 = Some i1"
    "index_of TIMEFRAMES t1 = Some j1" "m = BASE_MAGIC + int i1 * 1000 + int j1 * 10"
    by (auto simp: magic_number_def split: option.splits)
  from assms(2) obtain i2 j2 where b: "index_of SYMBOLS s2 = Some i2"
    "index_of TIMEFRAMES t2 = Some j2" "m = BASE_MAGIC + int i2 * 1000 + int j2 * 10"
    by (auto simp: magic_number_def split: option.splits)
  have j: "j1 < 3" "j2 < 3" using index_of_Some[OF a(2)] index_of_Some[OF b(2)]
    by (simp_all add: TIMEFRAMES_def)
  from a(3) b(3) have e: "i1 * 100 + j1 = i2 * 100 + j2" by linarith
  from j have "(i1 * 100 + j1) div 100 = i1" "(i2 * 100 + j2) div 100 = i2" by simp_all
  with e have "i1 = i2" by simp
  with e have "i1 = i2 \<and> j1 = j2" by simp
  with index_of_Some[OF a(1)] index_of_Some[OF b(1)] index_of_Some[OF a(2)] index_of_Some[OF b(2)]
  show ?thesis by auto
qed

lemma magic_number_range:
  assumes "magic_number s1 t1 = Some m"
  shows "BASE_MAGIC \<le> m \<and> m < BASE_MAGIC + int (length SYMBOLS) * 1000"
proof -
  from assms(1) obtain i1 j1 where a: "index_of SYMBOLS s1 = Some i1"
    "index_of TIMEFRAMES t1 = Some j1" "m = BASE_MAGIC + int i1 * 1000 + int j1 * 10"
    by (auto simp: magic_number_def split: option.splits)
  have j: "j1 < 3" using index_of_Some[OF a(2)] by (simp add: TIMEFRAMES_def)
  have i: "i1 < length SYMBOLS" using index_of_Some[OF a(1)] by simp
  from a(3) i j show ?thesis by linarith
qed

lemma magic_number_defined:
  assumes "s1 \<in> set SYMBOLS" "t1 \<in> set TIMEFRAMES"
  shows "\<exists>m. magic_number s1 t1 = Some m"
  using index_of_mem[OF assms(1)] index_of_mem[OF assms(2)]
  by (auto simp: magic_number_def)

text \<open>
  C10. Every configured (symbol, timeframe) pair has a magic number base +
  symbolIndex * 1000 + timeframeIndex * 10; it lies in [base, base + symbolCount * 1000),
  and no other configured pair has the same one.
\<close>

theorem magic_number_bijection:
  "\<forall>s1 \<in> set SYMBOLS. \<forall>t1 \<in> set TIMEFRAMES.
     \<exists>m. magic_number s1 t1 = Some m \<and>
         BASE_MAGIC \<le> m \<and> m < BASE_MAGIC + int (length SYMBOLS) * 1000 \<and>
         (\<forall>s2 \<in> set SYMBOLS. \<forall>t2 \<in> set TIMEFRAMES.
            magic_number s2 t2 = Some m \<longrightarrow> s2 = s1 \<and> t2 = t1)"
proof (intro ballI)
  fix s1 t1
  assume "s1 \<in> set SYMBOLS" "t1 \<in> set TIMEFRAMES"
  then obtain m where m: "magic_number s1 t1 = Some m"
    using magic_number_defined by blast
  have "\<forall>s2 \<in> set SYMBOLS. \<forall>t2 \<in> set TIMEFRAMES.
            magic_number s2 t2 = Some m \<longrightarrow> s2 = s1 \<and> t2 = t1"
    using magic_number_inj[OF _ m] by blast
  with m magic_number_range[OF m]
  show "\<exists>m. magic_number s1 t1 = Some m \<and>
         BASE_MAGIC \<le> m \<and> m < BASE_MAGIC + int (length SYMBOLS) * 1000 \<and>
         (\<forall>s2 \<in> set SYMBOLS. \<forall>t2 \<in> set TIMEFRAMES.
            magic_number s2 t2 = Some m \<longrightarrow> s2 = s1 \<and> t2 = t1)"
    by blast
qed

theorem magic_number_bijection_witness:
  "''BTCUSD'' \<in> set SYMBOLS \<and> 15 \<in> set TIMEFRAMES \<and> ''USOIL'' \<in> set SYMBOLS \<and>
   30 \<in> set TIMEFRAMES \<and>
   magic_number ''BTCUSD'' 15 = Some 11010 \<and> magic_number ''USOIL'' 30 = Some 17020 \<and>
   BASE_MAGIC \<le> 11010 \<and> 11010 < BASE_MAGIC + int (length SYMBOLS) * 1000 \<and>
   magic_number ''USOIL'' 30 \<noteq> magic_number ''BTCUSD'' 15"
proof -
  have h: "''BTCUSD'' \<in> set SYMBOLS" "15 \<in> set TIMEFRAMES" "''USOIL'' \<in> set SYMBOLS"
    "30 \<in> set TIMEFRAMES"
    by (simp_all add: SYMBOLS_def TIMEFRAMES_def)
  have v: "magic_number ''BTCUSD'' 15 = Some 11010" "magic_number ''USOIL'' 30 = Some 17020"
    by (simp_all add: magic_number_def SYMBOLS_def TIMEFRAMES_def BASE_MAGIC_def)
  from magic_number_bijection h(1,2) obtain m where m: "magic_number ''BTCUSD'' 15 = Some m"
    "BASE_MAGIC \<le> m" "m < BASE_MAGIC + int (length SYMBOLS) * 1000"
    "\<forall>s2 \<in> set SYMBOLS. \<forall>t2 \<in> set TIMEFRAMES.
        magic_number s2 t2 = Some m \<longrightarrow> s2 = ''BTCUSD'' \<and> t2 = 15"
    by blast
  from m(1) v(1) have e: "m = 11010" by simp
  from m(4) h(3,4) have "magic_number ''USOIL'' 30 \<noteq> Some m" by fastforce
  with m(2,3) e h v show ?thesis by simp
qed

section \<open>The per-pair loop\<close>

text \<open>With a terminal that answers the same within a tick, the average of fifty
  spread samples is the spread itself, so the spread filter never skips a symbol.\<close>

lemma get_avg_spread_eq:
  "get_avg_spread mt5 symb = (if 0 < get_spread mt5 symb then get_spread mt5 symb else 0)"
  by (simp add: get_avg_spread_def Let_def map_replicate_const sum_list_replicate)

lemma process_idle:
  assumes "get_indicators mt5 symb tf = None" "symb \<in> set SYMBOLS" "tf \<in> set TIMEFRAMES"
  shows "process_symbol_timeframe mt5 symb tf s = Some s"
  using assms by (simp add: process_symbol_timeframe_def Let_def)



lemma process_all_single:
  assumes "\<And>symb tf. (symb, tf) \<noteq> (''BTCUSD'', 5) \<Longrightarrow> get_indicators mt5 symb tf = None"
  shows "process_all mt5 (List.product SYMBOLS TIMEFRAMES) s =
         process_symbol_timeframe mt5 ''BTCUSD'' 5 s"
proof -
  have idle: "process_symbol_timeframe mt5 symb tf s' = Some s'"
    if "(symb, tf) \<noteq> (''BTCUSD'', 5)" "symb \<in> set SYMBOLS" "tf \<in> set TIMEFRAMES" for symb tf s'
    using process_idle[OF assms[OF that(1)] that(2,3)] .
  have mem: "x \<in> set SYMBOLS" if "x \<in> set SYMBOLS" for x using that .
  have s: "''XAUUSD'' \<in> set SYMBOLS" "''BTCUSD'' \<in> set SYMBOLS" "''US30'' \<in> set SYMBOLS"
    "''USDJPY'' \<in> set SYMBOLS" "''GBPJPY'' \<in> set SYMBOLS" "''EURGBP'' \<in> set SYMBOLS"
    "''ETHUSD'' \<in> set SYMBOLS" "''USOIL'' \<in> set SYMBOLS" "''AUDJPY'' \<in> set SYMBOLS"
    "''XAGUSD'' \<in> set SYMBOLS" "''EURUSD'' \<in> set SYMBOLS" "''GBPUSD'' \<in> set SYMBOLS"
    by (simp_all add: SYMBOLS_def)
  have t: "5 \<in> set TIMEFRAMES" "15 \<in> set TIMEFRAMES" "30 \<in> set TIMEFRAMES"
    by (simp_all add: TIMEFRAMES_def)
  have p: "List.product SYMBOLS TIMEFRAMES =
     [(''XAUUSD'', 5), (''XAUUSD'', 15), (''XAUUSD'', 30), (''BTCUSD'', 5), (''BTCUSD'', 15),
      (''BTCUSD'', 30), (''US30'', 5), (''US30'', 15), (''US30'', 30), (''USDJPY'', 5),
      (''USDJPY'', 15), (''USDJPY'', 30), (''GBPJPY'', 5), (''GBPJPY'', 15), (''GBPJPY'', 30),
      (''EURGBP'', 5), (''EURGBP'', 15), (''EURGBP'', 30), (''ETHUSD'', 5), (''ETHUSD'', 15),
      (''ETHUSD'', 30), (''USOIL'', 5), (''USOIL'', 15), (''USOIL'', 30), (''AUDJPY'', 5),
      (''AUDJPY'', 15), (''AUDJPY'', 30), (''XAGUSD'', 5), (''XAGUSD'', 15), (''XAGUSD'', 30),
      (''EURUSD'', 5), (''EURUSD'', 15), (''EURUSD'', 30), (''GBPUSD'', 5), (''GBPUSD'', 15),
      (''GBPUSD'', 30)]"
    by (simp add: SYMBOLS_def TIMEFRAMES_def)
  show ?thesis
    unfolding p by (simp add: idle s t split: option.splits)
qed


section \<open>What a tick leaves alone\<close>

lemma cleanup_order_dpl: "daily_profit_loss (cleanup_order mt5 ord s) = daily_profit_loss s"
  by (simp add: cleanup_order_def split: option.splits)

lemma fold_cleanup_dpl:
  "daily_profit_loss (fold (cleanup_order mt5) ords s) = daily_profit_loss s"
  by (induction ords arbitrary: s) (simp_all add: cleanup_order_dpl)

lemma cleanup_orders_dpl: "daily_profit_loss (cleanup_orders mt5 s) = daily_profit_loss s"
  by (simp add: cleanup_orders_def fold_cleanup_dpl)

lemma manage_position_dpl:
  "manage_position mt5 symb tf tfac p s = Some s' \<Longrightarrow> daily_profit_loss s' = daily_profit_loss s"
  by (auto simp: manage_position_def modify_position_def split: if_splits option.splits)

lemma manage_loop_dpl:
  "manage_loop mt5 symb tf tfac ps s = Some s' \<Longrightarrow> daily_profit_loss s' = daily_profit_loss s"
proof (induction ps arbitrary: s)
  case Nil
  then show ?case by simp
next
  case (Cons p ps)
  then show ?case by (auto split: option.splits dest: manage_position_dpl)
qed

lemma track_order_dpl:
  "daily_profit_loss (track_order mt5 symb tf mg bars (r, s)) = daily_profit_loss s"
  by (simp add: track_order_def split: option.splits)

lemma place_order_dpl:
  "daily_profit_loss (snd (place_order mt5 symb ot vol price a b mg tf s)) = daily_profit_loss s"
  by (simp add: place_order_def Let_def split: option.splits)

lemma track_place_dpl:
  "daily_profit_loss (track_order mt5 symb tf mg bars (place_order mt5 symb ot vol price a b mg tf s))
     = daily_profit_loss s"
  using track_order_dpl[of mt5 symb tf mg bars "fst (place_order mt5 symb ot vol price a b mg tf s)"
      "snd (place_order mt5 symb ot vol price a b mg tf s)"]
  by (simp add: place_order_dpl)

lemma buy_branch_dpl:
  "daily_profit_loss (buy_branch mt5 symb tf info atr sf mg bars s) = daily_profit_loss s"
  by (simp add: buy_branch_def Let_def track_place_dpl split: prod.splits)

lemma sell_branch_dpl:
  "daily_profit_loss (sell_branch mt5 symb tf info atr sf mg bars s) = daily_profit_loss s"
  by (simp add: sell_branch_def Let_def track_place_dpl split: prod.splits)

lemma new_trade_logic_dpl:
  "daily_profit_loss (new_trade_logic mt5 symb tf atr sf mg bars b sc ex s) = daily_profit_loss s"
  by (simp add: new_trade_logic_def buy_branch_dpl sell_branch_dpl split: option.splits)

lemma process_dpl:
  assumes "process_symbol_timeframe mt5 symb tf s = Some s'"
  shows "daily_profit_loss s' = daily_profit_loss s"
  using assms
  by (auto simp: process_symbol_timeframe_def Let_def manage_existing_positions_def
        new_trade_logic_dpl
      split: if_splits option.splits dest!: manage_loop_dpl)

lemma process_all_dpl:
  "process_all mt5 ps s = Some s' \<Longrightarrow> daily_profit_loss s' = daily_profit_loss s"
proof (induction ps arbitrary: s)
  case Nil
  then show ?case by simp
next
  case (Cons a ps)
  obtain symb tf where a: "a = (symb, tf)" by (cases a)
  from Cons show ?case unfolding a by (auto split: option.splits dest: process_dpl)
qed

lemma daily_rollover_dpl:
  "daily_profit_loss (daily_rollover mt5 ce s) = 0 \<or>
   daily_profit_loss (daily_rollover mt5 ce s) = daily_profit_loss s"
  by (simp add: daily_rollover_def is_new_trading_day_def Let_def)

lemma on_timer_dpl:
  assumes "on_timer mt5 s = Some s'" "daily_profit_loss s = 0"
  shows "daily_profit_loss s' = 0"
proof (cases "connected mt5")
  case False
  with assms show ?thesis by (simp add: on_timer_def)
next
  case True
  show ?thesis
  proof (cases "account_equity mt5")
    case None
    with True assms show ?thesis by (simp add: on_timer_def)
  next
    case (Some ce)
    define r where "r = daily_rollover mt5 ce s"
    have r0: "daily_profit_loss r = 0"
      using daily_rollover_dpl[of mt5 ce s] assms(2) by (auto simp: r_def)
    from assms(1) True Some
    have "s' = r \<or> s' = cleanup_orders mt5 r \<or>
          process_all mt5 (List.product SYMBOLS TIMEFRAMES) (cleanup_orders mt5 r) = Some s'"
      by (auto simp: on_timer_def Let_def r_def split: if_splits)
    then show ?thesis
      using r0 by (auto simp: cleanup_orders_dpl dest: process_all_dpl)
  qed
qed

lemma reachable_dpl: "reachable s \<Longrightarrow> daily_profit_loss s = 0"
proof (induction rule: reachable.induct)
  case (start account_info)
  show ?case by (simp add: init_engine_def Let_def)
next
  case (tick s mt5 s')
  then show ?case by (auto dest: on_timer_dpl)
qed

lemma rollover_sent: "sent (daily_rollover mt5 ce s) = sent s"
  by (simp add: daily_rollover_def is_new_trading_day_def Let_def)

lemma rollover_active: "active_orders (daily_rollover mt5 ce s) = active_orders s"
  by (simp add: daily_rollover_def is_new_trading_day_def Let_def)

lemma rollover_same_day:
  "last_trading_day s = Some (lagos_date mt5) \<Longrightarrow>
   daily_profit_loss (daily_rollover mt5 ce s) = daily_profit_loss s \<and>
   equity_at_start (daily_rollover mt5 ce s) = equity_at_start s"
  by (simp add: daily_rollover_def is_new_trading_day_def Let_def)

lemma breaker:
  assumes "connected mt5" "account_equity mt5 = Some ce"
    "daily_profit_loss (daily_rollover mt5 ce s)
       \<le> - (equity_at_start (daily_rollover mt5 ce s) * DAILY_LOSS_PERCENT / 100)"
  shows "on_timer mt5 s = Some (daily_rollover mt5 ce s)"
  using assms by (simp add: on_timer_def Let_def daily_loss_reached_def daily_loss_limit_def)

lemma breaker_example:
  "equity_at_start s0 = 10000 \<longrightarrow>
     daily_loss_limit s0 = 500 \<and>
     (daily_profit_loss s0 = - 501 \<longrightarrow> daily_loss_reached s0) \<and>
     (daily_profit_loss s0 = - 499 \<longrightarrow> \<not> daily_loss_reached s0)"
  by (simp add: daily_loss_reached_def daily_loss_limit_def DAILY_LOSS_PERCENT_def)

section \<open>Evaluation on the concrete terminals\<close>

lemma signal_fields:
  "symbol_info mt_signal ''BTCUSD'' = Some btc_info"
  "order_send mt_signal req = Some \<lparr>retcode = 10009, order = 77\<rparr>"
  "time_now mt_signal = 1000"
  "positions_get mt_signal = []"
  "orders_get mt_signal = []"
  "get_indicators mt_signal ''BTCUSD'' 5 = Some buy_snapshot"
  "copy_rates_time mt_signal symb tf = None"
  "connected mt_signal"
  "account_equity mt_signal = Some 10000"
  "lagos_date mt_signal = 1"
  "lagos_weekday mt_signal = 0"
  by (simp_all add: mt_signal_def mt_btc_def mt_idle_def)

lemma info_fields:
  "trade_contract_size btc_info = 1" "point btc_info = 1 / 100" "volume_step btc_info = 1 / 100"
  "ask btc_info = 2000" "bid btc_info = 1999" "spread btc_info = 100"
  by (simp_all add: btc_info_def)

lemma dpp_btc_any:
  "symbol_info mt5 ''BTCUSD'' = Some info \<Longrightarrow> calculate_dollar_risk_per_point mt5 ''BTCUSD'' = 1"
proof -
  assume a: "symbol_info mt5 ''BTCUSD'' = Some info"
  have f: "fl (1 * fl 1) = 1" by code_simp
  show ?thesis
    using a f by (simp add: calculate_dollar_risk_per_point_def dict_get_def SYMBOL_SETTINGS_def)
qed

lemmas dpp_signal = dpp_btc_any[OF signal_fields(1)]

lemma magic_btc5: "magic_number ''BTCUSD'' 5 = Some 11000"
  by (simp add: magic_number_def SYMBOLS_def TIMEFRAMES_def BASE_MAGIC_def)

lemma btc_configured: "''BTCUSD'' \<in> set SYMBOLS" "5 \<in> set TIMEFRAMES"
  by (simp_all add: SYMBOLS_def TIMEFRAMES_def)

lemma btc_settings:
  "dict_get (dict_get SYMBOL_SETTINGS ''BTCUSD'' []) ''minMaGap'' d = 6 / 10"
  "dict_get (dict_get SYMBOL_SETTINGS ''BTCUSD'' []) ''slFactor'' d = 3 / 2"
  "dict_get (dict_get SYMBOL_SETTINGS ''BTCUSD'' []) ''trailingFactor'' d = 1"
  "dict_get (dict_get SYMBOL_SETTINGS ''BTCUSD'' []) ''rsiUpper'' d = 75"
  "dict_get (dict_get SYMBOL_SETTINGS ''BTCUSD'' []) ''rsiLower'' d = 25"
  by (simp_all add: dict_get_def SYMBOL_SETTINGS_def)

lemma buy_snap2_buy: "buy_condition buy_snapshot (3 / 5) 75" "\<not> sell_condition buy_snapshot (3 / 5) 25"
  by (simp_all add: buy_condition_def sell_condition_def buy_snapshot_def idx1_def idx2_def Let_def
      ENABLE_BUY_def)

lemma lot_signal: "calculate_lot_size mt_signal ''BTCUSD'' (9999 / 5) (9924 / 5) 50 = 1"
  by code_simp

lemma adjust_signal:
  "adjust_risk_for_fixed_dollar mt_signal ''BTCUSD'' a b (9999 / 5) 1 True c =
     (fl (19993 / 10), fl (20023 / 10))"
proof -
  have i: "symbol_info mt_signal ''BTCUSD'' = Some btc_info" by (rule signal_fields(1))
  have p: "0 < calculate_dollar_risk_per_point mt_signal ''BTCUSD'' * fl (trade_contract_size btc_info) *
      fl 1"
    unfolding dpp_signal by code_simp
  have w: "(1 / 2 :: rat) = fl (fl (RISK_PER_TRADE /
        fl (fl (calculate_dollar_risk_per_point mt_signal ''BTCUSD'' * fl (trade_contract_size btc_info)) *
          fl 1)) * fl (point btc_info))"
    unfolding dpp_signal by code_simp
  have v1: "fl (fl (9999 / 5) - 1 / 2) = fl (19993 / 10)" by code_simp
  have v2: "fl (fl (9999 / 5) + fl (fl (fl (9999 / 5) - fl (19993 / 10)) * RISK_REWARD_RATIO)) =
      fl (20023 / 10)"
    by code_simp
  show ?thesis unfolding adjust_value[OF i p w] by (simp add: v1 v2)
qed

lemma buy_branch_signal:
  "sent (buy_branch mt_signal ''BTCUSD'' 5 btc_info 10 (3 / 2) 11000 bars s) =
     sent s @ [Pending ''BTCUSD'' 1 2 (9999 / 5) (fl (19993 / 10)) (fl (20023 / 10)) 11000 2500]"
proof -
  have p: "ask btc_info - LIMIT_ORDER_DISTANCE * (point btc_info * 10) = 9999 / 5"
    by (simp add: btc_info_def LIMIT_ORDER_DISTANCE_def)
  have q: "(9999 / 5 :: rat) - 3 / 2 * 10 = 9924 / 5" by simp
  show ?thesis
    unfolding buy_branch_def Let_def p q RISK_PER_TRADE_def
    by (simp add: lot_signal adjust_signal MAX_ALLOWED_LOT_SIZE_def MIN_LOT_SIZE_def
        place_order_def track_order_def Let_def get_timeframe_seconds_def dict_get_def
        ORDER_EXPIRATION_BARS_def ORDER_TYPE_BUY_LIMIT_def TRADE_RETCODE_DONE_def
        signal_fields)
qed

lemma spread_passes:
  "\<not> get_avg_spread mt5 symb * MAX_SPREAD_MULTIPLIER < get_spread mt5 symb"
  by (simp add: get_avg_spread_eq MAX_SPREAD_MULTIPLIER_def)

lemma process_signal:
  assumes "MIN_BARS_BETWEEN_TRADES \<le> 0 - last_trade_bar s ''BTCUSD'' 5"
  shows "map_option sent (process_symbol_timeframe mt_signal ''BTCUSD'' 5 s) =
     Some (sent s @ [Pending ''BTCUSD'' 1 2 (9999 / 5) (fl (19993 / 10)) (fl (20023 / 10)) 11000 2500])"
proof -
  have a: "idx1 (atr_fast buy_snapshot) = 10" by (simp add: buy_snapshot_def idx1_def)
  have c: "\<not> 0 - last_trade_bar s ''BTCUSD'' 5 < MIN_BARS_BETWEEN_TRADES" using assms by simp
  show ?thesis
    unfolding process_symbol_timeframe_def Let_def btc_settings
    using c
    by (simp add: spread_passes signal_fields MAX_GLOBAL_TRADES_def btc_configured get_bars_count_def
        manage_existing_positions_def magic_btc5 a buy_snap2_buy new_trade_logic_def
        count_orders_def MAX_TRADES_PER_SYMBOL_TF_def buy_branch_signal)
qed

lemma signal_only:
  "(symb, tf) \<noteq> (''BTCUSD'', 5) \<Longrightarrow> get_indicators mt_signal symb tf = None"
  by (auto simp: mt_signal_def mt_btc_def mt_idle_def)

lemma tick_signal_new_day:
  assumes "last_trading_day s \<noteq> Some 1" and "active_orders s = []"
    and "last_trade_bar s ''BTCUSD'' 5 = - 10" and "equity_high s \<le> 10000"
  shows "map_option sent (on_timer mt_signal s) =
     Some (sent s @ [Pending ''BTCUSD'' 1 2 (9999 / 5) (fl (19993 / 10)) (fl (20023 / 10)) 11000 2500])"
proof -
  define r where "r = daily_rollover mt_signal 10000 s"
  have f: "sent r = sent s" "active_orders r = []" "last_trade_bar r ''BTCUSD'' 5 = - 10"
     "equity_high r = 10000" "equity_at_start r = 10000" "daily_profit_loss r = 0"
    using assms
    by (simp_all add: r_def daily_rollover_def is_new_trading_day_def Let_def signal_fields)
  have c: "cleanup_orders mt_signal r = r" by (simp add: cleanup_orders_def f)
  have ses: "is_trading_session mt_signal"
    by (simp add: is_trading_session_def signal_fields)
  have "on_timer mt_signal s = process_all mt_signal (List.product SYMBOLS TIMEFRAMES) r"
    by (simp add: on_timer_def signal_fields r_def[symmetric] Let_def c ses
        daily_loss_reached_def daily_loss_limit_def f calculate_drawdown_def
        DAILY_LOSS_PERCENT_def MAX_DRAWDOWN_PERCENT_def)
  also have "\<dots> = process_symbol_timeframe mt_signal ''BTCUSD'' 5 r"
    by (rule process_all_single) (rule signal_only)
  finally show ?thesis
    using process_signal[of r] by (simp add: f MIN_BARS_BETWEEN_TRADES_def)
qed


lemma trail_btc_long:
  assumes "symbol_info mt5 ''BTCUSD'' = Some btc_info"
  shows "trail_position mt5 s ''BTCUSD'' 5 1 btc_long = Some (1901, 1895)"
  by (simp add: trail_position_def assms dpp_btc_any[OF assms] Let_def btc_long_def info_fields
      ORDER_TYPE_BUY_def RISK_PER_TRADE_def RISK_REWARD_RATIO_def py_int_def)












lemma cancel_fields:
  "orders_get mt_cancel_fails = [\<lparr>ticket = 7, symbol = ''BTCUSD'', magic = 11000\<rparr>]"
  "copy_rates_time mt_cancel_fails symb tf = Some 105"
  "order_send mt_cancel_fails req = Some \<lparr>retcode = 10027, order = 0\<rparr>"
  by (simp_all add: mt_cancel_fails_def mt_btc_def mt_idle_def)

lemma trail_guard:
  assumes "trail_position mt5 s symb tf tfac p = Some (new_sl, new_tp)"
  shows "\<exists>info. symbol_info mt5 symb = Some info \<and>
           (if ptype p = ORDER_TYPE_BUY then sl p < new_sl \<and> new_sl < ask info
            else (sl p \<noteq> 0 \<longrightarrow> new_sl < sl p) \<and> bid info < new_sl)"
proof (cases "symbol_info mt5 symb")
  case None
  with assms show ?thesis by (simp add: trail_position_def)
next
  case (Some info)
  with assms show ?thesis
    unfolding trail_position_def Let_def
    by (auto split: if_splits)
qed

lemma apply_trail_long:
  assumes "ptype p = ORDER_TYPE_BUY"
  shows "ptype (apply_trail mt5 s symb tf tfac p) = ORDER_TYPE_BUY \<and>
         sl p \<le> sl (apply_trail mt5 s symb tf tfac p)"
proof (cases "trail_position mt5 s symb tf tfac p")
  case None
  with assms show ?thesis by (simp add: apply_trail_def)
next
  case (Some a)
  obtain new_sl new_tp where a: "a = (new_sl, new_tp)" by (cases a)
  from trail_guard[OF Some[unfolded a]] assms have "sl p < new_sl" by auto
  with assms Some a show ?thesis
    by (simp add: apply_trail_def split: option.splits)
qed

lemma trail_run_long:
  "ptype p = ORDER_TYPE_BUY \<Longrightarrow> sl p \<le> sl (trail_run symb tf tfac p obs)"
proof (induction obs arbitrary: p)
  case Nil
  then show ?case by simp
next
  case (Cons ob obs)
  obtain mt5 s pr where ob: "ob = (mt5, s, pr)" by (cases ob)
  define q where "q = apply_trail mt5 s symb tf tfac (p\<lparr>profit := pr\<rparr>)"
  have pb: "ptype (p\<lparr>profit := pr\<rparr>) = ORDER_TYPE_BUY" using Cons.prems by simp
  from apply_trail_long[OF pb, of mt5 s symb tf tfac]
  have q: "ptype q = ORDER_TYPE_BUY" "sl p \<le> sl q" by (simp_all add: q_def)
  from Cons.IH[OF q(1)] have "sl q \<le> sl (trail_run symb tf tfac q obs)" .
  with q(2) show ?case by (simp add: ob q_def)
qed

section \<open>Global trade cap\<close>




section \<open>Expired orders\<close>

text \<open>
  C3 (the code drops the entry although the cancel failed). The tracked order 7 is
  five bars old and still listed by the terminal; the removal request is answered with
  retcode 10027, not \<^verbatim>\<open>TRADE_RETCODE_DONE\<close>; after the cleanup the request has been
  sent once and the ledger is empty, so nothing is left to retry.
\<close>

theorem cleanup_drops_order_on_failed_cancel:
  "map_option retcode (order_send mt_cancel_fails (Remove 7)) = Some 10027 \<and>
   10027 \<noteq> TRADE_RETCODE_DONE \<and>
   active_orders s_tracked = [tracked_order] \<and>
   sent (cleanup_orders mt_cancel_fails s_tracked) = [Remove 7] \<and>
   active_orders (cleanup_orders mt_cancel_fails s_tracked) = []"
  by (simp add: cleanup_orders_def cleanup_order_def cancel_fields s_tracked_def init_engine_def
      Let_def tracked_order_def ORDER_EXPIRATION_BARS_def TRADE_RETCODE_DONE_def)

section \<open>Daily loss breaker\<close>

text \<open>
  C4 (as stated, refuted). At the start of the tick the daily figure is -501 against
  a session-start equity of 10000, beyond the limit of 500; the tick is the first of a
  new trading day, so the figures are reset before the check, the cycle is not halted
  and a buy limit order is placed. The same happens from a state a run does reach:
  the engine started on an account with equity 0 (limit 0, daily figure 0) whose
  first tick sees an equity of 10000.
\<close>

theorem daily_loss_new_day_counterexample:
  "connected mt_signal \<and> account_equity mt_signal = Some 10000 \<and>
   equity_at_start s_loss = 10000 \<and> daily_profit_loss s_loss = - 501 \<and>
   daily_profit_loss s_loss \<le> - (equity_at_start s_loss * DAILY_LOSS_PERCENT / 100) \<and>
   map_option sent (on_timer mt_signal s_loss) =
     Some [Pending ''BTCUSD'' 1 2 (9999 / 5) (fl (19993 / 10)) (fl (20023 / 10)) 11000 2500] \<and>
   reachable (init_engine (Some 0)) \<and>
   daily_profit_loss (init_engine (Some 0))
     \<le> - (equity_at_start (init_engine (Some 0)) * DAILY_LOSS_PERCENT / 100) \<and>
   map_option sent (on_timer mt_signal (init_engine (Some 0))) =
     Some [Pending ''BTCUSD'' 1 2 (9999 / 5) (fl (19993 / 10)) (fl (20023 / 10)) 11000 2500]"
proof -
  have a: "map_option sent (on_timer mt_signal s_loss) =
     Some [Pending ''BTCUSD'' 1 2 (9999 / 5) (fl (19993 / 10)) (fl (20023 / 10)) 11000 2500]"
    using tick_signal_new_day[of s_loss] by (simp add: s_loss_def init_engine_def Let_def)
  have b: "map_option sent (on_timer mt_signal (init_engine (Some 0))) =
     Some [Pending ''BTCUSD'' 1 2 (9999 / 5) (fl (19993 / 10)) (fl (20023 / 10)) 11000 2500]"
    using tick_signal_new_day[of "init_engine (Some 0)"] by (simp add: init_engine_def Let_def)
  have c: "equity_at_start s_loss = 10000" "daily_profit_loss s_loss = - 501"
    "daily_profit_loss s_loss \<le> - (equity_at_start s_loss * DAILY_LOSS_PERCENT / 100)"
    "daily_profit_loss (init_engine (Some 0))
       \<le> - (equity_at_start (init_engine (Some 0)) * DAILY_LOSS_PERCENT / 100)"
    by (simp_all add: s_loss_def init_engine_def Let_def DAILY_LOSS_PERCENT_def)
  from a b c signal_fields(8,9) reachable.start[of "Some 0"] show ?thesis by blast
qed

text \<open>
  C4 (amended). Whenever the daily figure and the session-start equity in force after
  the rollover step that opens the tick (on a tick that does not start a new trading
  day: the values at the start of the tick) satisfy dailyProfitLoss \<le>
  -equityAtSessionStart * dailyLossPercent / 100, the tick ends there: no request is
  sent and the order ledger is untouched. With equityAtSessionStart = 10000 and
  dailyLossPercent = 5 the limit is 500; -499 does not reach it, -501 does.
\<close>

theorem daily_loss_breaker:
  assumes "connected mt5" and "account_equity mt5 = Some ce"
    and "daily_profit_loss (daily_rollover mt5 ce s)
           \<le> - (equity_at_start (daily_rollover mt5 ce s) * DAILY_LOSS_PERCENT / 100)"
  shows "on_timer mt5 s = Some (daily_rollover mt5 ce s) \<and>
         sent (daily_rollover mt5 ce s) = sent s \<and>
         active_orders (daily_rollover mt5 ce s) = active_orders s \<and>
         (last_trading_day s = Some (lagos_date mt5) \<longrightarrow>
            daily_profit_loss (daily_rollover mt5 ce s) = daily_profit_loss s \<and>
            equity_at_start (daily_rollover mt5 ce s) = equity_at_start s) \<and>
         (equity_at_start s0 = 10000 \<longrightarrow>
            daily_loss_limit s0 = 500 \<and>
            (daily_profit_loss s0 = - 501 \<longrightarrow> daily_loss_reached s0) \<and>
            (daily_profit_loss s0 = - 499 \<longrightarrow> \<not> daily_loss_reached s0))"
  using breaker[OF assms] rollover_sent[of mt5 ce s] rollover_active[of mt5 ce s]
    rollover_same_day[of s mt5 ce] breaker_example[of s0]
  by blast

theorem daily_loss_breaker_witness:
  "connected mt_idle \<and> account_equity mt_idle = Some 10000 \<and>
   last_trading_day s_halt = Some (lagos_date mt_idle) \<and>
   equity_at_start s_halt = 10000 \<and> daily_profit_loss s_halt = - 501 \<and>
   daily_loss_limit s_halt = 500 \<and> daily_loss_reached s_halt \<and>
   on_timer mt_idle s_halt = Some (daily_rollover mt_idle 10000 s_halt) \<and>
   sent (daily_rollover mt_idle 10000 s_halt) = sent s_halt \<and>
   daily_profit_loss (daily_rollover mt_idle 10000 s_halt) = - 501"
proof -
  have f: "connected mt_idle" "account_equity mt_idle = Some 10000"
    "last_trading_day s_halt = Some (lagos_date mt_idle)"
    "equity_at_start s_halt = 10000" "daily_profit_loss s_halt = - 501"
    by (simp_all add: mt_idle_def s_halt_def init_engine_def Let_def)
  have r: "daily_rollover mt_idle 10000 s_halt = s_halt"
    by (simp add: daily_rollover_def is_new_trading_day_def s_halt_def init_engine_def Let_def
        mt_idle_def)
  have b: "daily_profit_loss (daily_rollover mt_idle 10000 s_halt)
           \<le> - (equity_at_start (daily_rollover mt_idle 10000 s_halt) * DAILY_LOSS_PERCENT / 100)"
    by (simp add: r f DAILY_LOSS_PERCENT_def)
  from daily_loss_breaker[OF f(1,2) b, of s_halt] f show ?thesis by simp
qed

text \<open>
  C5 (as stated, refuted). The engine started on an account with equity 0 is
  reachable, and its first tick takes the daily-loss branch: the limit is 0 and
  0 \<le> -0.
\<close>

theorem daily_loss_branch_taken_counterexample:
  "reachable (init_engine (Some 0)) \<and> daily_loss_halt mt_broke (init_engine (Some 0)) \<and>
   on_timer mt_broke (init_engine (Some 0)) = Some (daily_rollover mt_broke 0 (init_engine (Some 0)))"
proof -
  have h: "daily_loss_halt mt_broke (init_engine (Some 0))"
    by (simp add: daily_loss_halt_def mt_broke_def mt_idle_def daily_loss_reached_def
        daily_loss_limit_def daily_rollover_def is_new_trading_day_def init_engine_def Let_def)
  then have "on_timer mt_broke (init_engine (Some 0)) =
      Some (daily_rollover mt_broke 0 (init_engine (Some 0)))"
    by (simp add: on_timer_def daily_loss_halt_def mt_broke_def mt_idle_def Let_def)
  with h reachable.start[of "Some 0"] show ?thesis by blast
qed

text \<open>
  C5 (amended). In every reachable engine state daily_profit_loss is 0; consequently
  a tick takes the daily-loss branch exactly when it gets to the check (terminal
  connected, account known) with a session-start equity, after the rollover step, of
  0 or less, and never while that equity is positive.
\<close>

theorem daily_profit_loss_always_zero:
  assumes "reachable s"
  shows "daily_profit_loss s = 0 \<and>
         (daily_loss_halt mt5 s \<longleftrightarrow>
            connected mt5 \<and>
            (\<exists>ce. account_equity mt5 = Some ce \<and> equity_at_start (daily_rollover mt5 ce s) \<le> 0))"
proof -
  have z: "daily_profit_loss s = 0" by (rule reachable_dpl[OF assms])
  have r: "daily_profit_loss (daily_rollover mt5 ce s) = 0" for ce
    using daily_rollover_dpl[of mt5 ce s] z by auto
  have "daily_loss_reached (daily_rollover mt5 ce s) \<longleftrightarrow>
          equity_at_start (daily_rollover mt5 ce s) \<le> 0" for ce
    by (simp add: daily_loss_reached_def daily_loss_limit_def r DAILY_LOSS_PERCENT_def
        mult_le_0_iff)
  then have "daily_loss_halt mt5 s \<longleftrightarrow>
            connected mt5 \<and>
            (\<exists>ce. account_equity mt5 = Some ce \<and> equity_at_start (daily_rollover mt5 ce s) \<le> 0)"
    by (auto simp: daily_loss_halt_def split: option.splits)
  with z show ?thesis by blast
qed

theorem daily_profit_loss_always_zero_witness:
  "reachable (init_engine (Some 10000)) \<and> daily_profit_loss (init_engine (Some 10000)) = 0 \<and>
   \<not> daily_loss_halt mt_idle (init_engine (Some 10000))"
proof -
  have e: "equity_at_start (daily_rollover mt_idle ce (init_engine (Some 10000))) = (if True then ce else 0)" for ce
    by (simp add: daily_rollover_def is_new_trading_day_def init_engine_def Let_def mt_idle_def)
  have a: "account_equity mt_idle = Some 10000" by (simp add: mt_idle_def)
  from daily_profit_loss_always_zero[OF reachable.start[of "Some 10000"], of mt_idle] show ?thesis
    by (simp add: reachable.start a e)
qed

section \<open>Trailing stops\<close>

lemma manage_position_cases:
  assumes "manage_position mt5 symb tf tfac p s = Some s'"
  shows "s' = s \<or>
         (\<exists>new_sl new_tp. trail_position mt5 s symb tf tfac p = Some (new_sl, new_tp) \<and>
            s' = s\<lparr>sent := sent s @ [Sltp (ticket p) new_sl new_tp]\<rparr>)"
  using assms
  by (auto simp: manage_position_def modify_position_def split: if_splits option.splits)

text \<open>
  C7. The engine sends a stop modification for a position only with the values the
  trailer computed and let pass; and whenever the trailer lets a pair pass, the symbol
  is known and, for a long position, the new stop is strictly above the existing stop
  and strictly below the current price (the ask); for a short position it is strictly
  below the existing stop, if the position has one (a stop of 0 is none), and strictly
  above the current price (the bid). So over any sequence of ticks, whatever the
  profits, prices and answers of the terminal, the stop of a long position never
  decreases.
\<close>

theorem trailing_stop_guard:
  "(manage_position mt5 symb tf tfac p s = Some s' \<longrightarrow>
      s' = s \<or>
      (\<exists>new_sl new_tp. trail_position mt5 s symb tf tfac p = Some (new_sl, new_tp) \<and>
         s' = s\<lparr>sent := sent s @ [Sltp (ticket p) new_sl new_tp]\<rparr>)) \<and>
   (trail_position mt5 s symb tf tfac p = Some (new_sl, new_tp) \<longrightarrow>
      (\<exists>info. symbol_info mt5 symb = Some info \<and>
           (if ptype p = ORDER_TYPE_BUY then sl p < new_sl \<and> new_sl < ask info
            else (sl p \<noteq> 0 \<longrightarrow> new_sl < sl p) \<and> bid info < new_sl))) \<and>
   (ptype p = ORDER_TYPE_BUY \<longrightarrow> sl p \<le> sl (trail_run symb tf tfac p obs))"
  using manage_position_cases[of mt5 symb tf tfac p s s'] trail_guard[of mt5 s symb tf tfac p new_sl new_tp]
    trail_run_long[of p symb tf tfac obs]
  by blast

theorem trailing_stop_guard_witness:
  "trail_position mt_signal s_day ''BTCUSD'' 5 1 btc_long = Some (1901, 1895) \<and>
   symbol_info mt_signal ''BTCUSD'' = Some btc_info \<and>
   ptype btc_long = ORDER_TYPE_BUY \<and> sl btc_long = 1850 \<and> ask btc_info = 2000 \<and>
   sl btc_long < 1901 \<and> (1901::rat) < ask btc_info \<and>
   sl (trail_run ''BTCUSD'' 5 1 btc_long [(mt_signal, s_day, 100), (mt_signal, s_day, 160)])
     = 3803 / 2 \<and>
   sl btc_long
     \<le> sl (trail_run ''BTCUSD'' 5 1 btc_long [(mt_signal, s_day, 100), (mt_signal, s_day, 160)])"
proof -
  have t: "trail_position mt_signal s_day ''BTCUSD'' 5 1 btc_long = Some (1901, 1895)"
    by (rule trail_btc_long[OF signal_fields(1)])
  have b: "ptype btc_long = ORDER_TYPE_BUY" by (simp add: btc_long_def ORDER_TYPE_BUY_def)
  have fl16: "\<lfloor>16 / 5 :: rat\<rfloor> = 3" by (simp add: floor_eq_iff)
  have r: "sl (trail_run ''BTCUSD'' 5 1 btc_long [(mt_signal, s_day, 100), (mt_signal, s_day, 160)])
      = 3803 / 2"
    by (simp add: apply_trail_def trail_position_def signal_fields dpp_signal Let_def btc_long_def
        info_fields ORDER_TYPE_BUY_def RISK_PER_TRADE_def RISK_REWARD_RATIO_def py_int_def
        TRADE_RETCODE_DONE_def fl16)
  from trailing_stop_guard[of mt_signal "''BTCUSD''" 5 1 btc_long s_day s_day 1901 1895
        "[(mt_signal, s_day, 100), (mt_signal, s_day, 160)]"] t b r signal_fields(1)
  show ?thesis by (simp add: btc_long_def info_fields)
qed

end
